theory Spec2Isabelle
  imports Main "HOL-Library.Word"
begin

section \<open>Addresses\<close>

text \<open>
  Modelled from the spec: the declaration of \<open>Relocatable\<close> is not part of the sources.
  A relocatable is a segment index (Go's \<open>int\<close>, read with \<open>sint\<close>) and an offset
  (Go's \<open>uint\<close>).
\<close>

record relocatable =
  SegmentIndex :: "64 word"
  Offset :: "64 word"

section \<open>Errors\<close>

text \<open>
  Go errors are values carrying a message. \<open>ErrorsNew\<close> stands for \<open>errors.New\<close> and
  \<open>fmt.Errorf\<close> with a plain message, \<open>VirtualMachineError\<close> for the struct of that name,
  \<open>FailedToFetchInstruction\<close> for the formatted error of \<open>Step\<close> that prints the program
  counter. The two last constructors are the run-time panics of Go that the functions
  below can raise: a method called through a nil pointer, and a slice index out of range.
\<close>

datatype error =
    ErrorsNew string
  | VirtualMachineError string
  | FailedToFetchInstruction relocatable
  | NilPointerDereference
  | IndexOutOfRange

fun Error :: "error \<Rightarrow> string" where
  "Error (ErrorsNew s) = s"
| "Error (VirtualMachineError s) = s"
| "Error (FailedToFetchInstruction pc) = ''Failed to fetch instruction''"
| "Error NilPointerDereference = ''invalid memory address or nil pointer dereference''"
| "Error IndexOutOfRange = ''index out of range''"

section \<open>Field elements\<close>

text \<open>
  Modelled from the spec: the arithmetic of \<open>Felt\<close> is done by a foreign library that
  is not part of the sources. A felt is an element of the prime field with modulus
  \<open>2^251 + 17 * 2^192 + 1\<close>, here the natural number below the modulus that represents
  it; division multiplies by the modular inverse.
\<close>

type_synonym felt = nat

definition felt_modulus :: nat where
  "felt_modulus = 2 ^ 251 + 17 * 2 ^ 192 + 1"

definition FeltZero :: felt where
  "FeltZero = 0"

definition FeltOne :: felt where
  "FeltOne = 1"

definition FeltFromUint64 :: "64 word \<Rightarrow> felt" where
  "FeltFromUint64 v = unat v mod felt_modulus"

definition Felt_IsZero :: "felt \<Rightarrow> bool" where
  "Felt_IsZero f = (f = FeltZero)"

definition Felt_Add :: "felt \<Rightarrow> felt \<Rightarrow> felt" where
  "Felt_Add a b = (a + b) mod felt_modulus"

definition Felt_Sub :: "felt \<Rightarrow> felt \<Rightarrow> felt" where
  "Felt_Sub a b = (a + (felt_modulus - b mod felt_modulus)) mod felt_modulus"

definition Felt_Mul :: "felt \<Rightarrow> felt \<Rightarrow> felt" where
  "Felt_Mul a b = (a * b) mod felt_modulus"

function felt_pow :: "felt \<Rightarrow> nat \<Rightarrow> felt" where
  "felt_pow b e =
     (if e = 0 then 1 mod felt_modulus
      else if even e then felt_pow (Felt_Mul b b) (e div 2)
      else Felt_Mul b (felt_pow (Felt_Mul b b) (e div 2)))"
  by pat_completeness auto
termination
  by (relation "measure snd") auto

definition Felt_Div :: "felt \<Rightarrow> felt \<Rightarrow> felt" where
  "Felt_Div a b = Felt_Mul a (felt_pow b (felt_modulus - 2))"

text \<open>
  \<open>ToU64\<close> succeeds when the three high limbs are zero and returns the low limb: the
  value is below \<open>2^64\<close>.
\<close>

definition Felt_ToU64 :: "felt \<Rightarrow> error + 64 word" where
  "Felt_ToU64 f =
     (if f < 2 ^ 64 then Inr (word_of_nat f)
      else Inl (ErrorsNew ''Cannot convert felt to u64''))"

section \<open>Values\<close>

text \<open>
  Modelled from the spec: the declaration of \<open>MaybeRelocatable\<close> and the methods of both
  types are not part of the sources. A value is a felt or a relocatable; the two
  constructors of \<open>maybe_relocatable\<close> carry the names of the source's constructor
  functions.
\<close>

datatype maybe_relocatable =
    NewMaybeRelocatableFelt felt
  | NewMaybeRelocatableRelocatable relocatable

text \<open>A failed type assertion of Go returns the zero value of the type and \<open>false\<close>.\<close>

definition GetFelt :: "maybe_relocatable \<Rightarrow> felt \<times> bool" where
  "GetFelt m =
     (case m of
        NewMaybeRelocatableFelt f \<Rightarrow> (f, True)
      | NewMaybeRelocatableRelocatable r \<Rightarrow> (0, False))"

definition GetRelocatable :: "maybe_relocatable \<Rightarrow> relocatable \<times> bool" where
  "GetRelocatable m =
     (case m of
        NewMaybeRelocatableFelt f \<Rightarrow> (\<lparr>SegmentIndex = 0, Offset = 0\<rparr>, False)
      | NewMaybeRelocatableRelocatable r \<Rightarrow> (r, True))"

definition MaybeRelocatable_IsEqual :: "maybe_relocatable \<Rightarrow> maybe_relocatable \<Rightarrow> bool" where
  "MaybeRelocatable_IsEqual a b = (a = b)"

definition Relocatable_IsEqual :: "relocatable \<Rightarrow> relocatable \<Rightarrow> bool" where
  "Relocatable_IsEqual a b = (a = b)"

definition MaybeRelocatable_IsZero :: "maybe_relocatable \<Rightarrow> bool" where
  "MaybeRelocatable_IsZero m =
     (case m of
        NewMaybeRelocatableFelt f \<Rightarrow> Felt_IsZero f
      | NewMaybeRelocatableRelocatable r \<Rightarrow> False)"

text \<open>
  Additions to an offset are checked: the sum has to stay in the range of \<open>uint\<close>, and a
  felt that is added has to fit in it.
\<close>

definition AddUint :: "relocatable \<Rightarrow> 64 word \<Rightarrow> error + relocatable" where
  "AddUint r n =
     (if unat (Offset r) + unat n < 2 ^ 64 then Inr (r\<lparr>Offset := Offset r + n\<rparr>)
      else Inl (ErrorsNew ''OffsetOverflow''))"

definition AddFelt :: "relocatable \<Rightarrow> felt \<Rightarrow> error + relocatable" where
  "AddFelt r f =
     (if f < 2 ^ 64 \<and> unat (Offset r) + f < 2 ^ 64
      then Inr (r\<lparr>Offset := Offset r + word_of_nat f\<rparr>)
      else Inl (ErrorsNew ''OffsetOverflow''))"

definition AddMaybeRelocatable :: "relocatable \<Rightarrow> maybe_relocatable \<Rightarrow> error + relocatable" where
  "AddMaybeRelocatable r m =
     (case m of
        NewMaybeRelocatableFelt f \<Rightarrow> AddFelt r f
      | NewMaybeRelocatableRelocatable r' \<Rightarrow> Inl (ErrorsNew ''RelocatableAdd''))"

definition AddOffset :: "relocatable \<Rightarrow> int \<Rightarrow> error + relocatable" where
  "AddOffset r off =
     (let n = uint (Offset r) + off
      in if 0 \<le> n \<and> n < 2 ^ 64 then Inr (r\<lparr>Offset := word_of_int n\<rparr>)
         else Inl (ErrorsNew ''OffsetOverflow''))"

definition MaybeRelocatable_Add ::
    "maybe_relocatable \<Rightarrow> maybe_relocatable \<Rightarrow> error + maybe_relocatable" where
  "MaybeRelocatable_Add a b =
     (case (a, b) of
        (NewMaybeRelocatableFelt x, NewMaybeRelocatableFelt y) \<Rightarrow>
          Inr (NewMaybeRelocatableFelt (Felt_Add x y))
      | (NewMaybeRelocatableRelocatable r, NewMaybeRelocatableFelt y) \<Rightarrow>
          map_sum id NewMaybeRelocatableRelocatable (AddFelt r y)
      | (NewMaybeRelocatableFelt x, NewMaybeRelocatableRelocatable r) \<Rightarrow>
          map_sum id NewMaybeRelocatableRelocatable (AddFelt r x)
      | (NewMaybeRelocatableRelocatable r, NewMaybeRelocatableRelocatable r') \<Rightarrow>
          Inl (ErrorsNew ''RelocatableAdd''))"

definition MaybeRelocatable_Sub ::
    "maybe_relocatable \<Rightarrow> maybe_relocatable \<Rightarrow> error + maybe_relocatable" where
  "MaybeRelocatable_Sub a b =
     (case (a, b) of
        (NewMaybeRelocatableFelt x, NewMaybeRelocatableFelt y) \<Rightarrow>
          Inr (NewMaybeRelocatableFelt (Felt_Sub x y))
      | (NewMaybeRelocatableRelocatable r, NewMaybeRelocatableFelt y) \<Rightarrow>
          (if y \<le> unat (Offset r)
           then Inr (NewMaybeRelocatableRelocatable (r\<lparr>Offset := Offset r - word_of_nat y\<rparr>))
           else Inl (ErrorsNew ''OffsetOverflow''))
      | (NewMaybeRelocatableRelocatable r, NewMaybeRelocatableRelocatable r') \<Rightarrow>
          (if SegmentIndex r = SegmentIndex r' \<and> Offset r' \<le> Offset r
           then Inr (NewMaybeRelocatableFelt (FeltFromUint64 (Offset r - Offset r')))
           else Inl (ErrorsNew ''RelocatableSub''))
      | (NewMaybeRelocatableFelt x, NewMaybeRelocatableRelocatable r) \<Rightarrow>
          Inl (ErrorsNew ''RelocatableSub''))"

section \<open>Memory\<close>

text \<open>
  The memory of \<open>memory.go\<close>. A validation rule and a builtin's deduction are Go
  functions that receive the memory; they read it through \<open>Get\<close> and \<open>NumSegments\<close>,
  so here they are functions of the stored cells and the number of segments.
\<close>

type_synonym memory_cells = "relocatable \<rightharpoonup> maybe_relocatable"

type_synonym ValidationRule =
  "memory_cells \<Rightarrow> 64 word \<Rightarrow> relocatable \<Rightarrow> error + relocatable list"

record memory =
  data :: memory_cells
  num_segments :: "64 word"
  validation_rules :: "64 word \<rightharpoonup> ValidationRule"
  validated_addresses :: "relocatable set"

definition NewMemory :: memory where
  "NewMemory =
     \<lparr>data = Map.empty, num_segments = 0, validation_rules = Map.empty,
      validated_addresses = {}\<rparr>"

definition NumSegments :: "memory \<Rightarrow> 64 word" where
  "NumSegments m = num_segments m"

text \<open>
  \<open>validateAddress\<close>: nothing to do for a temporary or an already validated address or
  a segment without rule; else the rule runs, and the addresses it returns are marked.
\<close>

definition validateAddress :: "memory \<Rightarrow> relocatable \<Rightarrow> error option \<times> memory" where
  "validateAddress m addr =
     (if sint (SegmentIndex addr) < 0 \<or> addr \<in> validated_addresses m then (None, m)
      else case validation_rules m (SegmentIndex addr) of
             None \<Rightarrow> (None, m)
           | Some rule \<Rightarrow>
               (case rule (data m) (num_segments m) addr of
                  Inl err \<Rightarrow> (Some err, m)
                | Inr addrs \<Rightarrow>
                    (None, m\<lparr>validated_addresses := validated_addresses m \<union> set addrs\<rparr>)))"

text \<open>
  \<open>Insert\<close>: the two checks of the segment index, the check against overwriting, the
  write, and the validation, whose error is the result of \<open>Insert\<close>. The conversion
  \<open>int(m.num_segments)\<close> reads the unsigned counter as a signed number.
\<close>

definition Insert :: "memory \<Rightarrow> relocatable \<Rightarrow> maybe_relocatable \<Rightarrow> error option \<times> memory" where
  "Insert m addr val =
     (if sint (SegmentIndex addr) < 0
      then (Some (ErrorsNew ''Segment index of key is negative - unimplemented''), m)
      else if sint (SegmentIndex addr) \<ge> sint (num_segments m)
      then (Some (ErrorsNew ''Error: Inserting into a non allocated segment''), m)
      else case data m addr of
             Some prev_elem \<Rightarrow>
               (if prev_elem \<noteq> val
                then (Some (ErrorsNew ''Memory is write-once, cannot overwrite memory value''), m)
                else validateAddress (m\<lparr>data := (data m)(addr \<mapsto> val)\<rparr>) addr)
           | None \<Rightarrow> validateAddress (m\<lparr>data := (data m)(addr \<mapsto> val)\<rparr>) addr)"

text \<open>
  \<open>Get\<close> has a pointer receiver; its body assigns to no field, so the memory it
  returns is the one it was given.
\<close>

definition Get :: "memory \<Rightarrow> relocatable \<Rightarrow> (error + maybe_relocatable) \<times> memory" where
  "Get m addr =
     (if sint (SegmentIndex addr) < 0
      then (Inl (ErrorsNew ''Segment index of key is negative - unimplemented''), m)
      else case data m addr of
             None \<Rightarrow> (Inl (ErrorsNew ''Memory Get: Value not found''), m)
           | Some v \<Rightarrow> (Inr v, m))"

definition AddValidationRule :: "memory \<Rightarrow> 64 word \<Rightarrow> ValidationRule \<Rightarrow> memory" where
  "AddValidationRule m segment_index rule =
     m\<lparr>validation_rules := (validation_rules m)(segment_index \<mapsto> rule)\<rparr>"

section \<open>Instructions\<close>

text \<open>
  Modelled from the spec: the declaration of \<open>Instruction\<close> and its decoder are not part
  of the sources. The constants that the sources name keep their names.
\<close>

datatype Register = AP | FP

datatype Op1Src = Op1SrcImm | Op1SrcAP | Op1SrcFP | Op1SrcOp0

datatype ResLogic = ResOp1 | ResAdd | ResMul | ResUnconstrained

datatype PcUpdate = PcUpdateRegular | PcUpdateJump | PcUpdateJumpRel | PcUpdateJnz

datatype ApUpdate = ApUpdateRegular | ApUpdateAdd | ApUpdateAdd1 | ApUpdateAdd2

datatype FpUpdate = FpUpdateRegular | FpUpdateAPPlus2 | FpUpdateDst

datatype Opcode = NOp | AssertEq | Call | Ret

record instruction =
  Off0 :: int
  Off1 :: int
  Off2 :: int
  DstReg :: Register
  Op0Reg :: Register
  Op1Addr :: Op1Src
  ResLogic :: ResLogic
  PcUpdate :: PcUpdate
  ApUpdate :: ApUpdate
  FpUpdate :: FpUpdate
  Opcode :: Opcode

definition Size :: "instruction \<Rightarrow> 64 word" where
  "Size i = (if Op1Addr i = Op1SrcImm then 2 else 1)"

section \<open>Run context\<close>

text \<open>
  Modelled from the spec: the three registers, and the addresses of the operands, which
  are a register plus a signed offset of the instruction, with the offset checked.
\<close>

record run_context =
  Pc :: relocatable
  Ap :: relocatable
  Fp :: relocatable

definition ComputeDstAddr :: "run_context \<Rightarrow> instruction \<Rightarrow> error + relocatable" where
  "ComputeDstAddr rc i =
     AddOffset (case DstReg i of AP \<Rightarrow> Ap rc | FP \<Rightarrow> Fp rc) (Off0 i)"

definition ComputeOp0Addr :: "run_context \<Rightarrow> instruction \<Rightarrow> error + relocatable" where
  "ComputeOp0Addr rc i =
     AddOffset (case Op0Reg i of AP \<Rightarrow> Ap rc | FP \<Rightarrow> Fp rc) (Off1 i)"

definition ComputeOp1Addr ::
    "run_context \<Rightarrow> instruction \<Rightarrow> maybe_relocatable option \<Rightarrow> error + relocatable" where
  "ComputeOp1Addr rc i op0 =
     (case Op1Addr i of
        Op1SrcImm \<Rightarrow>
          (if Off2 i = 1 then AddOffset (Pc rc) (Off2 i)
           else Inl (ErrorsNew ''ImmShouldBe1''))
      | Op1SrcAP \<Rightarrow> AddOffset (Ap rc) (Off2 i)
      | Op1SrcFP \<Rightarrow> AddOffset (Fp rc) (Off2 i)
      | Op1SrcOp0 \<Rightarrow>
          (case op0 of
             Some (NewMaybeRelocatableRelocatable r) \<Rightarrow> AddOffset r (Off2 i)
           | Some (NewMaybeRelocatableFelt f) \<Rightarrow> Inl (ErrorsNew ''PureValue'')
           | None \<Rightarrow> Inl (ErrorsNew ''UnknownOp0'')))"

section \<open>The virtual machine\<close>

text \<open>
  A builtin runner is an interface value; the machine uses its base and its deduction,
  which reads the memory.
\<close>

record builtin_runner =
  Base :: relocatable
  Builtin_DeduceMemoryCell ::
    "memory_cells \<Rightarrow> 64 word \<Rightarrow> relocatable \<Rightarrow> error + maybe_relocatable option"

text \<open>
  Modelled from the spec: the declaration of \<open>MemorySegmentManager\<close> is not part of the
  sources. It holds the memory and tracks the effective sizes of the segments.
\<close>

record memory_segment_manager =
  SegmentSizes :: "64 word \<rightharpoonup> 64 word"
  Memory :: memory

datatype trace_entry = TraceEntry relocatable relocatable relocatable

datatype relocated_trace_entry = RelocatedTraceEntry felt felt felt

record virtual_machine =
  RunContext :: run_context
  CurrentStep :: "64 word"
  Segments :: memory_segment_manager
  BuiltinRunners :: "builtin_runner list"
  Trace :: "trace_entry list"
  RelocatedTrace :: "relocated_trace_entry list"
  RelocatedMemory :: "64 word \<rightharpoonup> felt"

record operands =
  Dst :: maybe_relocatable
  Res :: "maybe_relocatable option"
  Op0 :: maybe_relocatable
  Op1 :: maybe_relocatable

definition NewVirtualMachine :: virtual_machine where
  "NewVirtualMachine =
     \<lparr>RunContext =
        \<lparr>Pc = \<lparr>SegmentIndex = 0, Offset = 0\<rparr>, Ap = \<lparr>SegmentIndex = 0, Offset = 0\<rparr>,
         Fp = \<lparr>SegmentIndex = 0, Offset = 0\<rparr>\<rparr>,
      CurrentStep = 0,
      Segments = \<lparr>SegmentSizes = Map.empty, Memory = NewMemory\<rparr>,
      BuiltinRunners = [],
      Trace = [],
      RelocatedTrace = [],
      RelocatedMemory = Map.empty\<rparr>"

text \<open>
  Two statements that the machine repeats. \<open>GetOrNil\<close> is
  \<open>x, _ := vm.Segments.Memory.Get(addr)\<close>: the error is dropped and the pointer is nil
  when there is one. \<open>InsertDiscard\<close> is \<open>vm.Segments.Memory.Insert(addr, val)\<close> as a
  statement: the memory is updated and the error that \<open>Insert\<close> returns is dropped.
\<close>

definition GetOrNil :: "virtual_machine \<Rightarrow> relocatable \<Rightarrow> maybe_relocatable option" where
  "GetOrNil vm addr =
     (case fst (Get (Memory (Segments vm)) addr) of Inl err \<Rightarrow> None | Inr v \<Rightarrow> Some v)"

definition InsertDiscard ::
    "virtual_machine \<Rightarrow> relocatable \<Rightarrow> maybe_relocatable \<Rightarrow> virtual_machine" where
  "InsertDiscard vm addr val =
     vm\<lparr>Segments := (Segments vm)\<lparr>Memory := snd (Insert (Memory (Segments vm)) addr val)\<rparr>\<rparr>"

definition DeduceMemoryCell ::
    "virtual_machine \<Rightarrow> relocatable \<Rightarrow> error + maybe_relocatable option" where
  "DeduceMemoryCell vm addr =
     (if sint (SegmentIndex addr) < 0 then Inr None
      else case find (\<lambda>b. SegmentIndex (Base b) = SegmentIndex addr) (BuiltinRunners vm) of
             None \<Rightarrow> Inr None
           | Some b \<Rightarrow>
               Builtin_DeduceMemoryCell b (data (Memory (Segments vm)))
                 (num_segments (Memory (Segments vm))) addr)"

subsection \<open>Deductions\<close>

definition DeduceDst ::
    "virtual_machine \<Rightarrow> instruction \<Rightarrow> maybe_relocatable option \<Rightarrow> maybe_relocatable option" where
  "DeduceDst vm instruction res =
     (case Opcode instruction of
        AssertEq \<Rightarrow> res
      | Call \<Rightarrow> Some (NewMaybeRelocatableRelocatable (Fp (RunContext vm)))
      | _ \<Rightarrow> None)"

definition DeduceOp0 ::
    "virtual_machine \<Rightarrow> instruction \<Rightarrow> maybe_relocatable option \<Rightarrow> maybe_relocatable option \<Rightarrow>
     error + (maybe_relocatable option \<times> maybe_relocatable option)" where
  "DeduceOp0 vm instruction dst op1 =
     (case Opcode instruction of
        Call \<Rightarrow>
          Inr (Some (NewMaybeRelocatableRelocatable
                 ((Pc (RunContext vm))
                    \<lparr>Offset := Offset (Pc (RunContext vm)) + Size instruction\<rparr>)), None)
      | AssertEq \<Rightarrow>
          (case ResLogic instruction of
             ResAdd \<Rightarrow>
               (case (dst, op1) of
                  (Some d, Some o1) \<Rightarrow>
                    (case MaybeRelocatable_Sub d o1 of
                       Inl err \<Rightarrow> Inl err
                     | Inr deduced_op0 \<Rightarrow> Inr (Some deduced_op0, Some d))
                | _ \<Rightarrow> Inr (None, None))
           | ResMul \<Rightarrow>
               (case (dst, op1) of
                  (Some d, Some o1) \<Rightarrow>
                    (if snd (GetFelt d) \<and> snd (GetFelt o1) \<and> \<not> Felt_IsZero (fst (GetFelt o1))
                     then Inr (Some (NewMaybeRelocatableFelt
                                 (Felt_Div (fst (GetFelt d)) (fst (GetFelt o1)))), Some d)
                     else Inr (None, None))
                | _ \<Rightarrow> Inr (None, None))
           | _ \<Rightarrow> Inr (None, None))
      | _ \<Rightarrow> Inr (None, None))"

text \<open>
  In the \<open>ResMul\<close> case \<open>DeduceOp1\<close> calls \<open>GetFelt\<close> on both pointers before any test
  of them: a nil pointer there is dereferenced.
\<close>

definition DeduceOp1 ::
    "instruction \<Rightarrow> maybe_relocatable option \<Rightarrow> maybe_relocatable option \<Rightarrow>
     error + (maybe_relocatable option \<times> maybe_relocatable option)" where
  "DeduceOp1 instruction dst op0 =
     (if Opcode instruction = AssertEq then
        (case ResLogic instruction of
           ResOp1 \<Rightarrow> Inr (dst, dst)
         | ResAdd \<Rightarrow>
             (case (op0, dst) of
                (Some o0, Some d) \<Rightarrow>
                  (case MaybeRelocatable_Sub d o0 of
                     Inl err \<Rightarrow> Inl err
                   | Inr dst_rel \<Rightarrow> Inr (Some dst_rel, Some d))
              | _ \<Rightarrow> Inr (None, None))
         | ResMul \<Rightarrow>
             (case dst of
                None \<Rightarrow> Inl NilPointerDereference
              | Some d \<Rightarrow>
                  (case op0 of
                     None \<Rightarrow> Inl NilPointerDereference
                   | Some o0 \<Rightarrow>
                       (if snd (GetFelt d) \<and> snd (GetFelt o0) \<and> \<not> Felt_IsZero (fst (GetFelt o0))
                        then Inr (Some (NewMaybeRelocatableFelt
                                    (Felt_Div (fst (GetFelt d)) (fst (GetFelt o0)))), Some d)
                        else Inr (None, None))))
         | ResUnconstrained \<Rightarrow> Inr (None, None))
      else Inr (None, None))"

definition ComputeRes ::
    "instruction \<Rightarrow> maybe_relocatable \<Rightarrow> maybe_relocatable \<Rightarrow> error + maybe_relocatable option" where
  "ComputeRes instruction op0 op1 =
     (case ResLogic instruction of
        ResOp1 \<Rightarrow> Inr (Some op1)
      | ResAdd \<Rightarrow>
          (case MaybeRelocatable_Add op0 op1 of
             Inl err \<Rightarrow> Inl err
           | Inr maybe_rel \<Rightarrow> Inr (Some maybe_rel))
      | ResMul \<Rightarrow>
          (if snd (GetFelt op0) \<and> snd (GetFelt op1)
           then Inr (Some (NewMaybeRelocatableFelt (Felt_Mul (fst (GetFelt op0)) (fst (GetFelt op1)))))
           else Inl (ErrorsNew ''ComputeResRelocatableMul''))
      | ResUnconstrained \<Rightarrow> Inr None)"

text \<open>
  \<open>ComputeOp0Deductions\<close> and \<open>ComputeOp1Deductions\<close>: the builtin first, then the
  deduction from the other operands; the operand found is inserted, and the result of
  that \<open>Insert\<close> is not read. \<open>ComputeOp1Deductions\<close> assigns the deduced \<open>res\<close> to its own
  parameter only, so it returns the operand alone.
\<close>

definition ComputeOp0Deductions ::
    "virtual_machine \<Rightarrow> relocatable \<Rightarrow> instruction \<Rightarrow> maybe_relocatable option \<Rightarrow>
     maybe_relocatable option \<Rightarrow>
     (error + (maybe_relocatable \<times> maybe_relocatable option)) \<times> virtual_machine" where
  "ComputeOp0Deductions vm op0_addr instruction dst op1 =
     (case DeduceMemoryCell vm op0_addr of
        Inl err \<Rightarrow> (Inl err, vm)
      | Inr (Some op0) \<Rightarrow> (Inr (op0, None), InsertDiscard vm op0_addr op0)
      | Inr None \<Rightarrow>
          (case DeduceOp0 vm instruction dst op1 of
             Inl err \<Rightarrow> (Inl err, vm)
           | Inr (Some op0, deduced_res) \<Rightarrow>
               (Inr (op0, deduced_res), InsertDiscard vm op0_addr op0)
           | Inr (None, deduced_res) \<Rightarrow>
               (Inl (ErrorsNew ''Failed to compute or deduce op0''), vm)))"

definition ComputeOp1Deductions ::
    "virtual_machine \<Rightarrow> relocatable \<Rightarrow> instruction \<Rightarrow> maybe_relocatable option \<Rightarrow>
     maybe_relocatable option \<Rightarrow> maybe_relocatable option \<Rightarrow>
     (error + maybe_relocatable) \<times> virtual_machine" where
  "ComputeOp1Deductions vm op1_addr instruction dst op0 res =
     (case DeduceMemoryCell vm op1_addr of
        Inl err \<Rightarrow> (Inl err, vm)
      | Inr (Some op1) \<Rightarrow> (Inr op1, InsertDiscard vm op1_addr op1)
      | Inr None \<Rightarrow>
          (case DeduceOp1 instruction dst op0 of
             Inl err \<Rightarrow> (Inl err, vm)
           | Inr (Some op1, deducedRes) \<Rightarrow> (Inr op1, InsertDiscard vm op1_addr op1)
           | Inr (None, deducedRes) \<Rightarrow>
               (Inl (ErrorsNew ''Failed to compute or deduce op1''), vm)))"


subsection \<open>Operands\<close>

text \<open>
  \<open>ComputeOperands\<close> returns the operands or the error together with the machine, whose
  memory holds the inserts made so far. The last step builds the operands from \<open>*dst\<close>:
  when \<open>dst\<close> is still nil after \<open>DeduceDst\<close>, the dereference panics.
\<close>

definition ComputeOperands ::
    "virtual_machine \<Rightarrow> instruction \<Rightarrow> (error + operands) \<times> virtual_machine" where
  "ComputeOperands vm instruction =
     (case ComputeDstAddr (RunContext vm) instruction of
        Inl err \<Rightarrow> (Inl (ErrorsNew ''FailedToComputeDstAddr''), vm)
      | Inr dst_addr \<Rightarrow>
     (let dst = GetOrNil vm dst_addr in
      case ComputeOp0Addr (RunContext vm) instruction of
        Inl err \<Rightarrow> (Inl (ErrorsNew (''FailedToComputeOp0Addr: '' @ Error err)), vm)
      | Inr op0_addr \<Rightarrow>
     (let op0_op = GetOrNil vm op0_addr in
      case ComputeOp1Addr (RunContext vm) instruction op0_op of
        Inl err \<Rightarrow> (Inl (ErrorsNew (''FailedToComputeOp1Addr: '' @ Error err)), vm)
      | Inr op1_addr \<Rightarrow>
     (let op1_op = GetOrNil vm op1_addr in
      case (case op0_op of
              Some x \<Rightarrow> (Inr (x, None), vm)
            | None \<Rightarrow> ComputeOp0Deductions vm op0_addr instruction dst op1_op) of
        (Inl err, vm1) \<Rightarrow> (Inl err, vm1)
      | (Inr (op0, res), vm1) \<Rightarrow>
     (case (case op1_op of
              Some x \<Rightarrow> (Inr x, vm1)
            | None \<Rightarrow> ComputeOp1Deductions vm1 op1_addr instruction dst op0_op res) of
        (Inl err, vm2) \<Rightarrow> (Inl err, vm2)
      | (Inr op1, vm2) \<Rightarrow>
     (case (case res of
              Some r \<Rightarrow> Inr (Some r)
            | None \<Rightarrow> ComputeRes instruction op0 op1) of
        Inl err \<Rightarrow> (Inl err, vm2)
      | Inr res' \<Rightarrow>
     (case dst of
        Some d \<Rightarrow> (Inr \<lparr>Dst = d, Res = res', Op0 = op0, Op1 = op1\<rparr>, vm2)
      | None \<Rightarrow>
          (case DeduceDst vm2 instruction res' of
             Some d \<Rightarrow>
               (Inr \<lparr>Dst = d, Res = res', Op0 = op0, Op1 = op1\<rparr>, InsertDiscard vm2 dst_addr d)
           | None \<Rightarrow> (Inl NilPointerDereference, vm2)))))))))"

definition OpcodeAssertions ::
    "virtual_machine \<Rightarrow> instruction \<Rightarrow> operands \<Rightarrow> error option" where
  "OpcodeAssertions vm instruction operands =
     (case Opcode instruction of
        AssertEq \<Rightarrow>
          (case Res operands of
             None \<Rightarrow> Some (VirtualMachineError ''UnconstrainedResAssertEq'')
           | Some res \<Rightarrow>
               (if \<not> MaybeRelocatable_IsEqual res (Dst operands)
                then Some (VirtualMachineError ''DiffAssertValues'')
                else None))
      | Call \<Rightarrow>
          (case AddUint (Pc (RunContext vm)) (Size instruction) of
             Inl err \<Rightarrow> Some err
           | Inr new_rel \<Rightarrow>
               (if \<not> MaybeRelocatable_IsEqual (Op0 operands) (NewMaybeRelocatableRelocatable new_rel)
                then Some (VirtualMachineError ''CantWriteReturnPc'')
                else if \<not> Relocatable_IsEqual (Fp (RunContext vm))
                            (fst (GetRelocatable (Dst operands)))
                then Some (VirtualMachineError ''CantWriteReturnFp'')
                else None))
      | _ \<Rightarrow> None)"

subsection \<open>Registers\<close>

text \<open>
  The three updates assign to the registers of the machine in place; each returns its
  error before it has assigned anything.
\<close>

definition UpdateFp ::
    "virtual_machine \<Rightarrow> instruction \<Rightarrow> operands \<Rightarrow> error option \<times> virtual_machine" where
  "UpdateFp vm instruction operands =
     (case FpUpdate instruction of
        FpUpdateAPPlus2 \<Rightarrow>
          (None, vm\<lparr>RunContext := (RunContext vm)
             \<lparr>Fp := (Fp (RunContext vm))\<lparr>Offset := Offset (Ap (RunContext vm)) + 2\<rparr>\<rparr>\<rparr>)
      | FpUpdateDst \<Rightarrow>
          (if snd (GetRelocatable (Dst operands))
           then (None, vm\<lparr>RunContext := (RunContext vm)
                   \<lparr>Fp := fst (GetRelocatable (Dst operands))\<rparr>\<rparr>)
           else case AddFelt (Fp (RunContext vm)) (fst (GetFelt (Dst operands))) of
                  Inl err \<Rightarrow> (Some err, vm)
                | Inr new_fp \<Rightarrow> (None, vm\<lparr>RunContext := (RunContext vm)\<lparr>Fp := new_fp\<rparr>\<rparr>))
      | FpUpdateRegular \<Rightarrow> (None, vm))"

definition UpdateAp ::
    "virtual_machine \<Rightarrow> instruction \<Rightarrow> operands \<Rightarrow> error option \<times> virtual_machine" where
  "UpdateAp vm instruction operands =
     (case ApUpdate instruction of
        ApUpdateAdd \<Rightarrow>
          (case Res operands of
             None \<Rightarrow> (Some (ErrorsNew ''Res.UNCONSTRAINED cannot be used with ApUpdate.ADD''), vm)
           | Some res \<Rightarrow>
               (case AddMaybeRelocatable (Ap (RunContext vm)) res of
                  Inl err \<Rightarrow> (Some err, vm)
                | Inr new_ap \<Rightarrow> (None, vm\<lparr>RunContext := (RunContext vm)\<lparr>Ap := new_ap\<rparr>\<rparr>)))
      | ApUpdateAdd1 \<Rightarrow>
          (None, vm\<lparr>RunContext := (RunContext vm)
             \<lparr>Ap := (Ap (RunContext vm))\<lparr>Offset := Offset (Ap (RunContext vm)) + 1\<rparr>\<rparr>\<rparr>)
      | ApUpdateAdd2 \<Rightarrow>
          (None, vm\<lparr>RunContext := (RunContext vm)
             \<lparr>Ap := (Ap (RunContext vm))\<lparr>Offset := Offset (Ap (RunContext vm)) + 2\<rparr>\<rparr>\<rparr>)
      | ApUpdateRegular \<Rightarrow> (None, vm))"

definition UpdatePc ::
    "virtual_machine \<Rightarrow> instruction \<Rightarrow> operands \<Rightarrow> error option \<times> virtual_machine" where
  "UpdatePc vm instruction operands =
     (case PcUpdate instruction of
        PcUpdateRegular \<Rightarrow>
          (None, vm\<lparr>RunContext := (RunContext vm)
             \<lparr>Pc := (Pc (RunContext vm))
                \<lparr>Offset := Offset (Pc (RunContext vm)) + Size instruction\<rparr>\<rparr>\<rparr>)
      | PcUpdateJump \<Rightarrow>
          (case Res operands of
             None \<Rightarrow> (Some (ErrorsNew ''Res.UNCONSTRAINED cannot be used with PcUpdate.JUMP''), vm)
           | Some res \<Rightarrow>
               (if \<not> snd (GetRelocatable res)
                then (Some (ErrorsNew
                        ''an integer value as Res cannot be used with PcUpdate.JUMP''), vm)
                else (None, vm\<lparr>RunContext := (RunContext vm)\<lparr>Pc := fst (GetRelocatable res)\<rparr>\<rparr>)))
      | PcUpdateJumpRel \<Rightarrow>
          (case Res operands of
             None \<Rightarrow>
               (Some (ErrorsNew ''Res.UNCONSTRAINED cannot be used with PcUpdate.JUMP_REL''), vm)
           | Some res \<Rightarrow>
               (if \<not> snd (GetFelt res)
                then (Some (ErrorsNew
                        ''a relocatable value as Res cannot be used with PcUpdate.JUMP_REL''), vm)
                else case AddFelt (Pc (RunContext vm)) (fst (GetFelt res)) of
                       Inl err \<Rightarrow> (Some err, vm)
                     | Inr new_pc \<Rightarrow>
                         (None, vm\<lparr>RunContext := (RunContext vm)\<lparr>Pc := new_pc\<rparr>\<rparr>)))
      | PcUpdateJnz \<Rightarrow>
          (if MaybeRelocatable_IsZero (Dst operands)
           then (None, vm\<lparr>RunContext := (RunContext vm)
                   \<lparr>Pc := (Pc (RunContext vm))
                      \<lparr>Offset := Offset (Pc (RunContext vm)) + Size instruction\<rparr>\<rparr>\<rparr>)
           else case AddMaybeRelocatable (Pc (RunContext vm)) (Op1 operands) of
                  Inl err \<Rightarrow> (Some err, vm)
                | Inr new_pc \<Rightarrow> (None, vm\<lparr>RunContext := (RunContext vm)\<lparr>Pc := new_pc\<rparr>\<rparr>)))"

definition UpdateRegisters ::
    "virtual_machine \<Rightarrow> instruction \<Rightarrow> operands \<Rightarrow> error option \<times> virtual_machine" where
  "UpdateRegisters vm instruction operands =
     (case UpdateFp vm instruction operands of
        (Some err, vm1) \<Rightarrow> (Some err, vm1)
      | (None, vm1) \<Rightarrow>
          (case UpdateAp vm1 instruction operands of
             (Some err, vm2) \<Rightarrow> (Some err, vm2)
           | (None, vm2) \<Rightarrow> UpdatePc vm2 instruction operands))"

subsection \<open>Steps\<close>

definition RunInstruction ::
    "virtual_machine \<Rightarrow> instruction \<Rightarrow> error option \<times> virtual_machine" where
  "RunInstruction v instruction =
     (case ComputeOperands v instruction of
        (Inl err, v1) \<Rightarrow> (Some err, v1)
      | (Inr operands, v1) \<Rightarrow>
          (case OpcodeAssertions v1 instruction operands of
             Some err \<Rightarrow> (Some err, v1)
           | None \<Rightarrow>
               (let v2 = v1\<lparr>Trace := Trace v1 @
                            [TraceEntry (Pc (RunContext v1)) (Ap (RunContext v1))
                               (Fp (RunContext v1))]\<rparr>
                in case UpdateRegisters v2 instruction operands of
                     (Some err, v3) \<Rightarrow> (Some err, v3)
                   | (None, v3) \<Rightarrow> (None, v3\<lparr>CurrentStep := CurrentStep v3 + 1\<rparr>))))"

text \<open>
  \<open>Step\<close> fetches the word at \<open>pc\<close>, decodes it and runs the instruction. The decoder is
  not part of the sources: it is the parameter \<open>DecodeInstruction\<close>. The statements of
  \<open>Step\<close> before its last line read the machine only; \<open>FetchAndDecode\<close> is their
  result, the error that \<open>Step\<close> returns or the decoded instruction.
\<close>

definition FetchAndDecode ::
    "(64 word \<Rightarrow> error + instruction) \<Rightarrow> virtual_machine \<Rightarrow> error + instruction" where
  "FetchAndDecode DecodeInstruction v =
     (case fst (Get (Memory (Segments v)) (Pc (RunContext v))) of
        Inl err \<Rightarrow> Inl (FailedToFetchInstruction (Pc (RunContext v)))
      | Inr encoded_instruction \<Rightarrow>
          (if \<not> snd (GetFelt encoded_instruction)
           then Inl (ErrorsNew ''Wrong instruction encoding'')
           else case Felt_ToU64 (fst (GetFelt encoded_instruction)) of
                  Inl err \<Rightarrow> Inl err
                | Inr encoded_instruction_uint \<Rightarrow> DecodeInstruction encoded_instruction_uint))"

definition Step ::
    "(64 word \<Rightarrow> error + instruction) \<Rightarrow> virtual_machine \<Rightarrow> error option \<times> virtual_machine" where
  "Step DecodeInstruction v =
     (case FetchAndDecode DecodeInstruction v of
        Inl err \<Rightarrow> (Some err, v)
      | Inr instruction \<Rightarrow> RunInstruction v instruction)"

subsection \<open>Relocation of the trace\<close>









text \<open>
  The parts of a machine that are not its memory: what the computation of the operands
  has to leave as it is.
\<close>

definition outside_memory ::
    "virtual_machine \<Rightarrow>
     run_context \<times> 64 word \<times> (64 word \<rightharpoonup> 64 word) \<times> builtin_runner list \<times>
     trace_entry list \<times> relocated_trace_entry list \<times> (64 word \<rightharpoonup> felt)" where
  "outside_memory vm =
     (RunContext vm, CurrentStep vm, SegmentSizes (Segments vm), BuiltinRunners vm, Trace vm,
      RelocatedTrace vm, RelocatedMemory vm)"

abbreviation cells_of :: "virtual_machine \<Rightarrow> memory_cells" where
  "cells_of vm \<equiv> data (Memory (Segments vm))"

section \<open>Example machines\<close>

text \<open>
  Concrete machines and instructions at which the theorems below are evaluated. A machine
  has the given cells in a memory of the given number of segments, the given registers,
  an empty trace and no builtin runner.
\<close>

definition machine_with :: "memory_cells \<Rightarrow> 64 word \<Rightarrow> run_context \<Rightarrow> virtual_machine" where
  "machine_with cells n rc =
     NewVirtualMachine
       \<lparr>RunContext := rc,
        Segments := \<lparr>SegmentSizes = Map.empty,
                     Memory = NewMemory\<lparr>data := cells, num_segments := n\<rparr>\<rparr>\<rparr>"

text \<open>\<open>[fp - 5] = [fp - 4] + [fp - 3]\<close>, an assertion whose second operand is missing.\<close>

definition assert_eq_add_instruction :: instruction where
  "assert_eq_add_instruction =
     \<lparr>Off0 = - 5, Off1 = - 4, Off2 = - 3, DstReg = FP, Op0Reg = FP, Op1Addr = Op1SrcFP,
      ResLogic = ResAdd, PcUpdate = PcUpdateRegular, ApUpdate = ApUpdateRegular,
      FpUpdate = FpUpdateRegular, Opcode = AssertEq\<rparr>"

definition assert_eq_add_machine :: virtual_machine where
  "assert_eq_add_machine =
     machine_with
       [\<lparr>SegmentIndex = 0, Offset = 0\<rparr> \<mapsto> NewMaybeRelocatableFelt 7,
        \<lparr>SegmentIndex = 1, Offset = 0\<rparr> \<mapsto> NewMaybeRelocatableFelt 5,
        \<lparr>SegmentIndex = 1, Offset = 1\<rparr> \<mapsto> NewMaybeRelocatableFelt 2]
       2
       \<lparr>Pc = \<lparr>SegmentIndex = 0, Offset = 0\<rparr>, Ap = \<lparr>SegmentIndex = 1, Offset = 5\<rparr>,
        Fp = \<lparr>SegmentIndex = 1, Offset = 5\<rparr>\<rparr>"

text \<open>A decoder for the examples: the word 7 is the instruction, any other word is invalid.\<close>

definition decode_only :: "instruction \<Rightarrow> 64 word \<Rightarrow> error + instruction" where
  "decode_only i w = (if w = 7 then Inr i else Inl (ErrorsNew ''InvalidEncoding''))"



text \<open>
  \<open>call rel 4\<close> in its usual encoding, with \<open>dst = [ap]\<close> and \<open>op0 = [ap + 1]\<close>, and the
  same call with \<open>dst = [fp - 2]\<close> and \<open>op0 = [fp - 1]\<close>, on a machine whose cells
  \<open>[fp - 2]\<close> and \<open>[fp - 1]\<close> hold \<open>fp\<close> and \<open>pc + 2\<close>.
\<close>

definition call_instruction :: instruction where
  "call_instruction =
     \<lparr>Off0 = 0, Off1 = 1, Off2 = 1, DstReg = AP, Op0Reg = AP, Op1Addr = Op1SrcImm,
      ResLogic = ResOp1, PcUpdate = PcUpdateJumpRel, ApUpdate = ApUpdateAdd2,
      FpUpdate = FpUpdateAPPlus2, Opcode = Call\<rparr>"

definition call_below_fp_instruction :: instruction where
  "call_below_fp_instruction = call_instruction\<lparr>Off0 := - 2, Off1 := - 1, DstReg := FP, Op0Reg := FP\<rparr>"

definition call_machine :: virtual_machine where
  "call_machine =
     machine_with
       [\<lparr>SegmentIndex = 0, Offset = 0\<rparr> \<mapsto> NewMaybeRelocatableFelt 7,
        \<lparr>SegmentIndex = 0, Offset = 1\<rparr> \<mapsto> NewMaybeRelocatableFelt 4,
        \<lparr>SegmentIndex = 1, Offset = 0\<rparr> \<mapsto>
          NewMaybeRelocatableRelocatable \<lparr>SegmentIndex = 1, Offset = 2\<rparr>,
        \<lparr>SegmentIndex = 1, Offset = 1\<rparr> \<mapsto>
          NewMaybeRelocatableRelocatable \<lparr>SegmentIndex = 0, Offset = 2\<rparr>]
       2
       \<lparr>Pc = \<lparr>SegmentIndex = 0, Offset = 0\<rparr>, Ap = \<lparr>SegmentIndex = 1, Offset = 2\<rparr>,
        Fp = \<lparr>SegmentIndex = 1, Offset = 2\<rparr>\<rparr>"

text \<open>
  \<open>[ap] = [ap + 1]\<close> with both operands read from the same missing cell \<open>[ap + 1]\<close>, on a
  machine with a builtin runner on the segment of \<open>ap\<close> that deduces 7 for a cell as long
  as the cell is empty.
\<close>

definition assert_eq_same_cell_instruction :: instruction where
  "assert_eq_same_cell_instruction =
     \<lparr>Off0 = 0, Off1 = 1, Off2 = 1, DstReg = AP, Op0Reg = AP, Op1Addr = Op1SrcAP,
      ResLogic = ResOp1, PcUpdate = PcUpdateRegular, ApUpdate = ApUpdateRegular,
      FpUpdate = FpUpdateRegular, Opcode = AssertEq\<rparr>"

definition empty_cell_runner :: builtin_runner where
  "empty_cell_runner =
     \<lparr>Base = \<lparr>SegmentIndex = 1, Offset = 0\<rparr>,
      Builtin_DeduceMemoryCell =
        (\<lambda>cells n addr. if cells addr = None then Inr (Some (NewMaybeRelocatableFelt 7))
                         else Inr None)\<rparr>"

definition same_cell_machine :: virtual_machine where
  "same_cell_machine =
     (machine_with
        [\<lparr>SegmentIndex = 0, Offset = 0\<rparr> \<mapsto> NewMaybeRelocatableFelt 7,
         \<lparr>SegmentIndex = 1, Offset = 0\<rparr> \<mapsto> NewMaybeRelocatableFelt 9]
        2
        \<lparr>Pc = \<lparr>SegmentIndex = 0, Offset = 0\<rparr>, Ap = \<lparr>SegmentIndex = 1, Offset = 0\<rparr>,
         Fp = \<lparr>SegmentIndex = 1, Offset = 0\<rparr>\<rparr>)
     \<lparr>BuiltinRunners := [empty_cell_runner]\<rparr>"

section \<open>Unfolding the definitions on concrete machines\<close>

lemmas machine_defs = machine_with_def NewVirtualMachine_def NewMemory_def decode_only_def

lemmas address_defs = ComputeDstAddr_def ComputeOp0Addr_def ComputeOp1Addr_def AddOffset_def
  AddUint_def AddFelt_def

lemmas memory_defs = GetOrNil_def Get_def InsertDiscard_def Insert_def validateAddress_def

lemmas value_defs = GetFelt_def GetRelocatable_def MaybeRelocatable_IsEqual_def
  Relocatable_IsEqual_def MaybeRelocatable_IsZero_def MaybeRelocatable_Sub_def
  MaybeRelocatable_Add_def AddMaybeRelocatable_def Felt_Sub_def Felt_Add_def Felt_Mul_def
  Felt_IsZero_def FeltZero_def Felt_ToU64_def felt_modulus_def Size_def

lemmas deduce_defs = DeduceMemoryCell_def DeduceDst_def DeduceOp0_def DeduceOp1_def
  ComputeRes_def ComputeOp0Deductions_def ComputeOp1Deductions_def

lemmas step_defs = Step_def FetchAndDecode_def RunInstruction_def ComputeOperands_def
  OpcodeAssertions_def UpdateRegisters_def UpdateFp_def UpdateAp_def UpdatePc_def Let_def

section \<open>The memory under \<open>Insert\<close>\<close>

lemma validateAddress_data: "data (snd (validateAddress m addr)) = data m"
  and validateAddress_num_segments: "num_segments (snd (validateAddress m addr)) = num_segments m"
  by (simp_all add: validateAddress_def split: option.splits sum.splits)

lemma validateAddress_idem:
  "validateAddress m addr = (None, m1) \<Longrightarrow> validateAddress m1 addr = (None, m1)"
  by (auto simp: validateAddress_def split: if_splits option.splits sum.splits)

lemma Insert_success_validate:
  "Insert m addr v = (None, m1) \<Longrightarrow>
     validateAddress (m\<lparr>data := (data m)(addr \<mapsto> v)\<rparr>) addr = (None, m1) \<and>
     0 \<le> sint (SegmentIndex addr) \<and> sint (SegmentIndex addr) < sint (num_segments m)"
  unfolding Insert_def
  by (auto split: if_splits option.splits)

lemma Insert_success_data:
  "Insert m addr v = (None, m1) \<Longrightarrow> data m1 addr = Some v"
  using Insert_success_validate[of m addr v m1]
    validateAddress_data[of "m\<lparr>data := (data m)(addr \<mapsto> v)\<rparr>" addr]
  by simp

lemma sint_le_uint: "sint (w :: 64 word) \<le> uint w"
proof -
  have "- (2 ^ 63) \<le> uint w"
    by (rule order_trans[of _ 0]) simp_all
  then show ?thesis
    by (simp add: sint_uint signed_take_bit_int_less_eq_self_iff)
qed

lemma Insert_other: "a \<noteq> b \<Longrightarrow> data (snd (Insert m b y)) a = data m a"
  by (simp add: Insert_def validateAddress_data split: option.splits)

lemma Insert_num_segments: "num_segments (snd (Insert m b y)) = num_segments m"
  by (simp add: Insert_def validateAddress_num_segments split: option.splits)

lemma Insert_empty:
  "0 \<le> sint (SegmentIndex b) \<Longrightarrow> sint (SegmentIndex b) < sint (num_segments m) \<Longrightarrow>
   data m b = None \<Longrightarrow> data (snd (Insert m b y)) b = Some y"
  by (simp add: Insert_def validateAddress_data)

lemma InsertDiscard_other: "a \<noteq> b \<Longrightarrow> cells_of (InsertDiscard vm b y) a = cells_of vm a"
  by (simp add: InsertDiscard_def Insert_other)

lemma InsertDiscard_num_segments:
  "num_segments (Memory (Segments (InsertDiscard vm b y))) = num_segments (Memory (Segments vm))"
  by (simp add: InsertDiscard_def Insert_num_segments)

lemma InsertDiscard_empty:
  "0 \<le> sint (SegmentIndex b) \<Longrightarrow>
   sint (SegmentIndex b) < sint (num_segments (Memory (Segments vm))) \<Longrightarrow>
   cells_of vm b = None \<Longrightarrow> cells_of (InsertDiscard vm b y) b = Some y"
  by (simp add: InsertDiscard_def Insert_empty)

lemma GetOrNil_allocated: "0 \<le> sint (SegmentIndex a) \<Longrightarrow> GetOrNil vm a = cells_of vm a"
  by (simp add: GetOrNil_def Get_def split: option.splits)

section \<open>Addresses of the operands\<close>

lemma AddOffset_zero: "AddOffset r 0 = Inr r"
  using uint_lt2p[of "Offset r"] by (simp add: AddOffset_def Let_def)

lemma AddOffset_one:
  assumes "AddOffset r 1 = Inr r'"
  shows "r' = r\<lparr>Offset := Offset r + 1\<rparr>" and "r' \<noteq> r" and "SegmentIndex r' = SegmentIndex r"
proof -
  from assms show eq: "r' = r\<lparr>Offset := Offset r + 1\<rparr>"
    by (auto simp: AddOffset_def Let_def split: if_splits)
  have "Offset r + 1 \<noteq> Offset r" by simp
  with eq show "r' \<noteq> r" by (metis relocatable.select_convs(2) relocatable.surjective relocatable.update_convs(2))
  from eq show "SegmentIndex r' = SegmentIndex r" by simp
qed

lemma AddOffset_one_AddUint: "AddOffset r 1 = Inr r' \<Longrightarrow> AddUint r 1 = Inr r'"
proof -
  assume a: "AddOffset r 1 = Inr r'"
  then have lt: "uint (Offset r) + 1 < 2 ^ 64" and eq: "r' = r\<lparr>Offset := word_of_int (uint (Offset r) + 1)\<rparr>"
    by (auto simp: AddOffset_def Let_def split: if_splits)
  have "int (unat (Offset r) + 1) < 2 ^ 64" using lt by simp
  then have "unat (Offset r) + 1 < 2 ^ 64" by (metis of_nat_less_numeral_power_cancel_iff)
  then show ?thesis using eq by (simp add: AddUint_def)
qed

lemma DeduceMemoryCell_no_builtin:
  "\<forall>b\<in>set (BuiltinRunners vm). SegmentIndex (Base b) \<noteq> SegmentIndex a \<Longrightarrow>
   DeduceMemoryCell vm a = Inr None"
proof -
  assume "\<forall>b\<in>set (BuiltinRunners vm). SegmentIndex (Base b) \<noteq> SegmentIndex a"
  then have "find (\<lambda>b. SegmentIndex (Base b) = SegmentIndex a) (BuiltinRunners vm) = None"
    by (simp add: find_None_iff)
  then show ?thesis by (simp add: DeduceMemoryCell_def)
qed

lemma DeduceMemoryCell_Some:
  "DeduceMemoryCell vm a = Inr (Some x) \<Longrightarrow>
   \<exists>b\<in>set (BuiltinRunners vm). SegmentIndex (Base b) = SegmentIndex a"
  by (auto simp: DeduceMemoryCell_def find_Some_iff split: option.splits if_splits)

lemma GetRelocatable_eq:
  "fst (GetRelocatable d) = r \<Longrightarrow>
   r \<noteq> \<lparr>SegmentIndex = 0, Offset = 0\<rparr> \<or> (\<forall>f. d \<noteq> NewMaybeRelocatableFelt f) \<Longrightarrow>
     d = NewMaybeRelocatableRelocatable r"
  by (cases d) (auto simp: GetRelocatable_def)

section \<open>What the computation of the operands leaves alone\<close>

lemma InsertDiscard_frame [simp]:
  "outside_memory (InsertDiscard vm a x) = outside_memory vm"
  by (simp add: InsertDiscard_def outside_memory_def)

lemma ComputeOp0Deductions_frame [simp]:
  "outside_memory (snd (ComputeOp0Deductions vm a i dst op1)) = outside_memory vm"
  by (simp add: ComputeOp0Deductions_def split: sum.splits option.splits prod.splits)

lemma ComputeOp1Deductions_frame [simp]:
  "outside_memory (snd (ComputeOp1Deductions vm a i dst op0 res)) = outside_memory vm"
  by (simp add: ComputeOp1Deductions_def split: sum.splits option.splits prod.splits)

text \<open>
  The stages of \<open>ComputeOperands\<close>, read off a run of it.
\<close>

lemma ComputeOperands_stages:
  assumes "ComputeOperands vm i = (r, vm')"
  shows "(vm' = vm \<and> (\<exists>e. r = Inl e)) \<or>
    (\<exists>dst_addr op0_addr op1_addr r0 vm1.
       ComputeDstAddr (RunContext vm) i = Inr dst_addr \<and>
       ComputeOp0Addr (RunContext vm) i = Inr op0_addr \<and>
       ComputeOp1Addr (RunContext vm) i (GetOrNil vm op0_addr) = Inr op1_addr \<and>
       (case GetOrNil vm op0_addr of
          Some x \<Rightarrow> (Inr (x, None), vm)
        | None \<Rightarrow> ComputeOp0Deductions vm op0_addr i (GetOrNil vm dst_addr)
                    (GetOrNil vm op1_addr)) = (r0, vm1) \<and>
       ((vm' = vm1 \<and> (\<exists>e. r0 = Inl e \<and> r = Inl e)) \<or>
        (\<exists>op0 res r1 vm2. r0 = Inr (op0, res) \<and>
           (case GetOrNil vm op1_addr of
              Some x \<Rightarrow> (Inr x, vm1)
            | None \<Rightarrow> ComputeOp1Deductions vm1 op1_addr i (GetOrNil vm dst_addr)
                        (GetOrNil vm op0_addr) res) = (r1, vm2) \<and>
           ((vm' = vm2 \<and> (\<exists>e. r = Inl e)) \<or>
            (\<exists>op1 res'. r1 = Inr op1 \<and>
               (case res of Some x \<Rightarrow> Inr (Some x) | None \<Rightarrow> ComputeRes i op0 op1) = Inr res' \<and>
               (case GetOrNil vm dst_addr of
                  Some d \<Rightarrow> r = Inr \<lparr>Dst = d, Res = res', Op0 = op0, Op1 = op1\<rparr> \<and> vm' = vm2
                | None \<Rightarrow>
                    (\<exists>d. DeduceDst vm2 i res' = Some d \<and>
                       r = Inr \<lparr>Dst = d, Res = res', Op0 = op0, Op1 = op1\<rparr> \<and>
                       vm' = InsertDiscard vm2 dst_addr d)))))))"
  using assms unfolding ComputeOperands_def Let_def
  by (auto split: sum.splits prod.splits option.splits)

lemma ComputeOp0Deductions_frame_dest:
  "ComputeOp0Deductions vm a i dst op1 = (r0, vm1) \<Longrightarrow> outside_memory vm1 = outside_memory vm"
  using ComputeOp0Deductions_frame[of vm a i dst op1] by simp

lemma ComputeOp1Deductions_frame_dest:
  "ComputeOp1Deductions vm a i dst op0 res = (r1, vm2) \<Longrightarrow> outside_memory vm2 = outside_memory vm"
  using ComputeOp1Deductions_frame[of vm a i dst op0 res] by simp

lemma ComputeOperands_frame [simp]:
  "outside_memory (snd (ComputeOperands vm i)) = outside_memory vm"
proof -
  obtain r vm' where run: "ComputeOperands vm i = (r, vm')"
    by (cases "ComputeOperands vm i")
  from ComputeOperands_stages[OF run] have "outside_memory vm' = outside_memory vm"
    by (elim disjE exE conjE)
       (auto dest!: ComputeOp0Deductions_frame_dest ComputeOp1Deductions_frame_dest
             split: option.splits)
  with run show ?thesis by simp
qed

lemma outside_memory_fields:
  "outside_memory a = outside_memory b \<Longrightarrow>
     RunContext a = RunContext b \<and> CurrentStep a = CurrentStep b \<and>
     BuiltinRunners a = BuiltinRunners b \<and> Trace a = Trace b \<and>
     RelocatedTrace a = RelocatedTrace b \<and> RelocatedMemory a = RelocatedMemory b"
  by (simp add: outside_memory_def)

lemma ComputeOperands_fields:
  "ComputeOperands v i = (r, v1) \<Longrightarrow>
     RunContext v1 = RunContext v \<and> CurrentStep v1 = CurrentStep v \<and>
     BuiltinRunners v1 = BuiltinRunners v \<and> Trace v1 = Trace v \<and>
     RelocatedTrace v1 = RelocatedTrace v \<and> RelocatedMemory v1 = RelocatedMemory v"
  using ComputeOperands_frame[of v i] outside_memory_fields[of v1 v] by simp

lemma ComputeOperands_success:
  assumes "ComputeOperands vm i = (Inr ops, vm')"
  shows "\<exists>dst_addr op0_addr op1_addr vm1 op0 res vm2 op1 res'.
       ComputeDstAddr (RunContext vm) i = Inr dst_addr \<and>
       ComputeOp0Addr (RunContext vm) i = Inr op0_addr \<and>
       ComputeOp1Addr (RunContext vm) i (GetOrNil vm op0_addr) = Inr op1_addr \<and>
       (case GetOrNil vm op0_addr of
          Some x \<Rightarrow> (Inr (x, None), vm)
        | None \<Rightarrow> ComputeOp0Deductions vm op0_addr i (GetOrNil vm dst_addr)
                    (GetOrNil vm op1_addr)) = (Inr (op0, res), vm1) \<and>
       (case GetOrNil vm op1_addr of
          Some x \<Rightarrow> (Inr x, vm1)
        | None \<Rightarrow> ComputeOp1Deductions vm1 op1_addr i (GetOrNil vm dst_addr)
                    (GetOrNil vm op0_addr) res) = (Inr op1, vm2) \<and>
       (case res of Some x \<Rightarrow> Inr (Some x) | None \<Rightarrow> ComputeRes i op0 op1) = Inr res' \<and>
       ops = \<lparr>Dst = Dst ops, Res = res', Op0 = op0, Op1 = op1\<rparr> \<and>
       (case GetOrNil vm dst_addr of
          Some d \<Rightarrow> Dst ops = d \<and> vm' = vm2
        | None \<Rightarrow>
            DeduceDst vm2 i res' = Some (Dst ops) \<and> vm' = InsertDiscard vm2 dst_addr (Dst ops))"
  using assms unfolding ComputeOperands_def Let_def
  by (auto split: sum.splits prod.splits option.splits)

section \<open>Register updates and steps\<close>




lemma UpdateFp_frame:
  "UpdateFp vm i ops = (r, vm') \<Longrightarrow>
     Pc (RunContext vm') = Pc (RunContext vm) \<and> Ap (RunContext vm') = Ap (RunContext vm) \<and>
     Segments vm' = Segments vm \<and> Trace vm' = Trace vm \<and> RelocatedTrace vm' = RelocatedTrace vm"
  by (auto simp: UpdateFp_def split: FpUpdate.splits if_splits sum.splits)

lemma UpdateAp_frame:
  "UpdateAp vm i ops = (r, vm') \<Longrightarrow>
     Pc (RunContext vm') = Pc (RunContext vm) \<and> Fp (RunContext vm') = Fp (RunContext vm) \<and>
     Segments vm' = Segments vm \<and> Trace vm' = Trace vm \<and> RelocatedTrace vm' = RelocatedTrace vm"
  by (auto simp: UpdateAp_def split: ApUpdate.splits option.splits sum.splits)

lemma UpdatePc_frame:
  "UpdatePc vm i ops = (r, vm') \<Longrightarrow>
     Ap (RunContext vm') = Ap (RunContext vm) \<and> Fp (RunContext vm') = Fp (RunContext vm) \<and>
     Segments vm' = Segments vm \<and> Trace vm' = Trace vm \<and> RelocatedTrace vm' = RelocatedTrace vm"
  by (auto simp: UpdatePc_def split: PcUpdate.splits option.splits if_splits sum.splits)

lemma UpdateRegisters_frame:
  "UpdateRegisters vm i ops = (r, vm') \<Longrightarrow>
     Segments vm' = Segments vm \<and> Trace vm' = Trace vm \<and> RelocatedTrace vm' = RelocatedTrace vm"
  unfolding UpdateRegisters_def
  by (auto split: prod.splits option.splits dest!: UpdateFp_frame UpdateAp_frame UpdatePc_frame)

lemma RunInstruction_success:
  "RunInstruction v i = (None, v') \<Longrightarrow>
     \<exists>ops v1 v3. ComputeOperands v i = (Inr ops, v1) \<and> OpcodeAssertions v1 i ops = None \<and>
       UpdateRegisters
         (v1\<lparr>Trace := Trace v1 @ [TraceEntry (Pc (RunContext v1)) (Ap (RunContext v1))
                                   (Fp (RunContext v1))]\<rparr>) i ops = (None, v3) \<and>
       v' = v3\<lparr>CurrentStep := CurrentStep v3 + 1\<rparr>"
  unfolding RunInstruction_def Let_def
  by (auto split: prod.splits sum.splits option.splits)




section \<open>Calls\<close>

lemma OpcodeAssertions_Call:
  "Opcode i = Call \<Longrightarrow> OpcodeAssertions vm i ops = None \<Longrightarrow>
     \<exists>ret. AddUint (Pc (RunContext vm)) (Size i) = Inr ret \<and>
           Op0 ops = NewMaybeRelocatableRelocatable ret \<and>
           fst (GetRelocatable (Dst ops)) = Fp (RunContext vm)"
  by (auto simp: OpcodeAssertions_def MaybeRelocatable_IsEqual_def Relocatable_IsEqual_def
           split: sum.splits if_splits)

lemma call_op0_stage:
  assumes call: "Opcode i = Call"
    and nob: "\<forall>b\<in>set (BuiltinRunners v). SegmentIndex (Base b) \<noteq> SegmentIndex a"
    and seg: "0 \<le> sint (SegmentIndex a)"
      "sint (SegmentIndex a) < sint (num_segments (Memory (Segments v)))"
    and run: "(case GetOrNil v a of
                 Some x \<Rightarrow> (Inr (x, None), v)
               | None \<Rightarrow> ComputeOp0Deductions v a i d o1) = (Inr (op0, res), vm1)"
  shows "cells_of vm1 a = Some op0"
    and "\<forall>c. c \<noteq> a \<longrightarrow> cells_of vm1 c = cells_of v c"
    and "outside_memory vm1 = outside_memory v"
    and "num_segments (Memory (Segments vm1)) = num_segments (Memory (Segments v))"
proof -
  have g: "GetOrNil v a = cells_of v a" using seg(1) by (rule GetOrNil_allocated)
  have all: "cells_of vm1 a = Some op0 \<and> (\<forall>c. c \<noteq> a \<longrightarrow> cells_of vm1 c = cells_of v c) \<and>
      outside_memory vm1 = outside_memory v \<and>
      num_segments (Memory (Segments vm1)) = num_segments (Memory (Segments v))"
  proof (cases "cells_of v a")
    case (Some x)
    with run g show ?thesis by simp
  next
    case None
    with run g have "ComputeOp0Deductions v a i d o1 = (Inr (op0, res), vm1)" by simp
    then have "vm1 = InsertDiscard v a op0"
      using DeduceMemoryCell_no_builtin[OF nob] call
      by (auto simp: ComputeOp0Deductions_def DeduceOp0_def)
    then show ?thesis
      using None seg by (simp add: InsertDiscard_empty InsertDiscard_other InsertDiscard_num_segments)
  qed
  from all show "cells_of vm1 a = Some op0"
    and "\<forall>c. c \<noteq> a \<longrightarrow> cells_of vm1 c = cells_of v c"
    and "outside_memory vm1 = outside_memory v"
    and "num_segments (Memory (Segments vm1)) = num_segments (Memory (Segments v))"
    by simp_all
qed

lemma call_op1_stage:
  assumes call: "Opcode i = Call"
    and nob: "\<forall>b\<in>set (BuiltinRunners vm1). SegmentIndex (Base b) \<noteq> s"
    and run: "(case GetOrNil v b of
                 Some x \<Rightarrow> (Inr x, vm1)
               | None \<Rightarrow> ComputeOp1Deductions vm1 b i d o0 res) = (Inr op1, vm2)"
  shows "\<forall>c. SegmentIndex c = s \<longrightarrow> cells_of vm2 c = cells_of vm1 c"
    and "outside_memory vm2 = outside_memory vm1"
    and "num_segments (Memory (Segments vm2)) = num_segments (Memory (Segments vm1))"
proof -
  have all: "(\<forall>c. SegmentIndex c = s \<longrightarrow> cells_of vm2 c = cells_of vm1 c) \<and>
      outside_memory vm2 = outside_memory vm1 \<and>
      num_segments (Memory (Segments vm2)) = num_segments (Memory (Segments vm1))"
  proof (cases "GetOrNil v b")
    case (Some x)
    with run show ?thesis by simp
  next
    case None
    with run have r: "ComputeOp1Deductions vm1 b i d o0 res = (Inr op1, vm2)" by simp
    have no1: "DeduceOp1 i d o0 = Inr (None, None)" using call by (simp add: DeduceOp1_def)
    from r no1 have ded: "DeduceMemoryCell vm1 b = Inr (Some op1)" and vm2: "vm2 = InsertDiscard vm1 b op1"
      by (auto simp: ComputeOp1Deductions_def split: sum.splits option.splits)
    from DeduceMemoryCell_Some[OF ded] nob have "SegmentIndex b \<noteq> s" by auto
    then have "\<forall>c. SegmentIndex c = s \<longrightarrow> c \<noteq> b" by auto
    then show ?thesis using vm2 by (simp add: InsertDiscard_other InsertDiscard_num_segments)
  qed
  from all show "\<forall>c. SegmentIndex c = s \<longrightarrow> cells_of vm2 c = cells_of vm1 c"
    and "outside_memory vm2 = outside_memory vm1"
    and "num_segments (Memory (Segments vm2)) = num_segments (Memory (Segments vm1))"
    by simp_all
qed

section \<open>The loop of the relocation\<close>




section \<open>Runs of the example machines\<close>

lemma assert_eq_add_fetch:
  "FetchAndDecode (decode_only assert_eq_add_instruction) assert_eq_add_machine =
     Inr assert_eq_add_instruction"
  by (simp add: FetchAndDecode_def assert_eq_add_machine_def machine_defs memory_defs value_defs)

lemma assert_eq_add_step:
  "Step (decode_only assert_eq_add_instruction) assert_eq_add_machine =
     (None,
      (machine_with
         [\<lparr>SegmentIndex = 0, Offset = 0\<rparr> \<mapsto> NewMaybeRelocatableFelt 7,
          \<lparr>SegmentIndex = 1, Offset = 0\<rparr> \<mapsto> NewMaybeRelocatableFelt 5,
          \<lparr>SegmentIndex = 1, Offset = 1\<rparr> \<mapsto> NewMaybeRelocatableFelt 2,
          \<lparr>SegmentIndex = 1, Offset = 2\<rparr> \<mapsto> NewMaybeRelocatableFelt 3]
         2
         \<lparr>Pc = \<lparr>SegmentIndex = 0, Offset = 1\<rparr>, Ap = \<lparr>SegmentIndex = 1, Offset = 5\<rparr>,
          Fp = \<lparr>SegmentIndex = 1, Offset = 5\<rparr>\<rparr>)
      \<lparr>CurrentStep := 1,
       Trace := [TraceEntry \<lparr>SegmentIndex = 0, Offset = 0\<rparr> \<lparr>SegmentIndex = 1, Offset = 5\<rparr>
                   \<lparr>SegmentIndex = 1, Offset = 5\<rparr>]\<rparr>)"
  by (simp add: step_defs assert_eq_add_machine_def assert_eq_add_instruction_def
        machine_defs address_defs memory_defs value_defs deduce_defs)


lemma call_below_fp_step:
  "Step (decode_only call_below_fp_instruction) call_machine =
     (None,
      call_machine
      \<lparr>RunContext := \<lparr>Pc = \<lparr>SegmentIndex = 0, Offset = 4\<rparr>, Ap = \<lparr>SegmentIndex = 1, Offset = 4\<rparr>,
          Fp = \<lparr>SegmentIndex = 1, Offset = 4\<rparr>\<rparr>,
       CurrentStep := 1,
       Trace := [TraceEntry \<lparr>SegmentIndex = 0, Offset = 0\<rparr> \<lparr>SegmentIndex = 1, Offset = 2\<rparr>
                   \<lparr>SegmentIndex = 1, Offset = 2\<rparr>]\<rparr>)"
  by (simp add: step_defs call_machine_def call_below_fp_instruction_def call_instruction_def
        machine_defs address_defs memory_defs value_defs deduce_defs)

lemma call_step:
  "Step (decode_only call_instruction) call_machine =
     (None,
      (machine_with
       [\<lparr>SegmentIndex = 0, Offset = 0\<rparr> \<mapsto> NewMaybeRelocatableFelt 7,
        \<lparr>SegmentIndex = 0, Offset = 1\<rparr> \<mapsto> NewMaybeRelocatableFelt 4,
        \<lparr>SegmentIndex = 1, Offset = 0\<rparr> \<mapsto>
          NewMaybeRelocatableRelocatable \<lparr>SegmentIndex = 1, Offset = 2\<rparr>,
        \<lparr>SegmentIndex = 1, Offset = 1\<rparr> \<mapsto>
          NewMaybeRelocatableRelocatable \<lparr>SegmentIndex = 0, Offset = 2\<rparr>,
        \<lparr>SegmentIndex = 1, Offset = 3\<rparr> \<mapsto>
          NewMaybeRelocatableRelocatable \<lparr>SegmentIndex = 0, Offset = 2\<rparr>,
        \<lparr>SegmentIndex = 1, Offset = 2\<rparr> \<mapsto>
          NewMaybeRelocatableRelocatable \<lparr>SegmentIndex = 1, Offset = 2\<rparr>]
       2
       \<lparr>Pc = \<lparr>SegmentIndex = 0, Offset = 4\<rparr>, Ap = \<lparr>SegmentIndex = 1, Offset = 4\<rparr>,
          Fp = \<lparr>SegmentIndex = 1, Offset = 4\<rparr>\<rparr>)
      \<lparr>CurrentStep := 1,
       Trace := [TraceEntry \<lparr>SegmentIndex = 0, Offset = 0\<rparr> \<lparr>SegmentIndex = 1, Offset = 2\<rparr>
                   \<lparr>SegmentIndex = 1, Offset = 2\<rparr>]\<rparr>)"
  by (simp add: step_defs call_machine_def call_instruction_def
        machine_defs address_defs memory_defs value_defs deduce_defs)

lemma same_cell_operands:
  "ComputeOperands same_cell_machine assert_eq_same_cell_instruction =
     (Inr \<lparr>Dst = NewMaybeRelocatableFelt 9, Res = Some (NewMaybeRelocatableFelt 9),
           Op0 = NewMaybeRelocatableFelt 7, Op1 = NewMaybeRelocatableFelt 9\<rparr>,
      (machine_with
        [\<lparr>SegmentIndex = 0, Offset = 0\<rparr> \<mapsto> NewMaybeRelocatableFelt 7,
         \<lparr>SegmentIndex = 1, Offset = 0\<rparr> \<mapsto> NewMaybeRelocatableFelt 9,
         \<lparr>SegmentIndex = 1, Offset = 1\<rparr> \<mapsto> NewMaybeRelocatableFelt 7]
        2
        \<lparr>Pc = \<lparr>SegmentIndex = 0, Offset = 0\<rparr>, Ap = \<lparr>SegmentIndex = 1, Offset = 0\<rparr>,
         Fp = \<lparr>SegmentIndex = 1, Offset = 0\<rparr>\<rparr>)
     \<lparr>BuiltinRunners := [empty_cell_runner]\<rparr>)"
  by (simp add: step_defs same_cell_machine_def assert_eq_same_cell_instruction_def
        empty_cell_runner_def machine_defs address_defs memory_defs value_defs deduce_defs)

lemma same_cell_step:
  "Step (decode_only assert_eq_same_cell_instruction) same_cell_machine =
     (None,
      (machine_with
        [\<lparr>SegmentIndex = 0, Offset = 0\<rparr> \<mapsto> NewMaybeRelocatableFelt 7,
         \<lparr>SegmentIndex = 1, Offset = 0\<rparr> \<mapsto> NewMaybeRelocatableFelt 9,
         \<lparr>SegmentIndex = 1, Offset = 1\<rparr> \<mapsto> NewMaybeRelocatableFelt 7]
        2
        \<lparr>Pc = \<lparr>SegmentIndex = 0, Offset = 1\<rparr>, Ap = \<lparr>SegmentIndex = 1, Offset = 0\<rparr>,
         Fp = \<lparr>SegmentIndex = 1, Offset = 0\<rparr>\<rparr>)
     \<lparr>CurrentStep := 1, BuiltinRunners := [empty_cell_runner],
      Trace := [TraceEntry \<lparr>SegmentIndex = 0, Offset = 0\<rparr> \<lparr>SegmentIndex = 1, Offset = 0\<rparr>
                  \<lparr>SegmentIndex = 1, Offset = 0\<rparr>]\<rparr>)"
  by (simp add: step_defs same_cell_machine_def assert_eq_same_cell_instruction_def
        empty_cell_runner_def machine_defs address_defs memory_defs value_defs deduce_defs)

lemma same_cell_op0:
  "ComputeOp0Deductions same_cell_machine \<lparr>SegmentIndex = 1, Offset = 1\<rparr>
     assert_eq_same_cell_instruction (Some (NewMaybeRelocatableFelt 9)) None =
   (Inr (NewMaybeRelocatableFelt 7, None),
    InsertDiscard same_cell_machine \<lparr>SegmentIndex = 1, Offset = 1\<rparr> (NewMaybeRelocatableFelt 7))"
  by (simp add: same_cell_machine_def assert_eq_same_cell_instruction_def
        empty_cell_runner_def machine_defs deduce_defs)

section \<open>The claims\<close>

subsection \<open>Memory\<close>

text \<open>
  C1. \<open>Insert\<close> is write-once. After an \<open>Insert\<close> of \<open>v1\<close> at \<open>addr\<close> has succeeded,
  the cell holds \<open>v1\<close>; a second \<open>Insert\<close> of the same value succeeds and leaves the whole
  memory as it is; an \<open>Insert\<close> of any other value fails with the write-once error and
  leaves the memory, and so the stored \<open>v1\<close>, as it is. An \<open>Insert\<close> at a negative
  segment index, and one at a segment index that is at least the number of segments,
  fail with their errors and leave the memory unchanged.
\<close>

theorem Insert_write_once:
  "(Insert m addr v1 = (None, m1) \<longrightarrow>
      data m1 addr = Some v1 \<and>
      Insert m1 addr v1 = (None, m1) \<and>
      (\<forall>v2. v2 \<noteq> v1 \<longrightarrow>
         Insert m1 addr v2 =
           (Some (ErrorsNew ''Memory is write-once, cannot overwrite memory value''), m1))) \<and>
   (sint (SegmentIndex addr) < 0 \<longrightarrow>
      Insert m addr v =
        (Some (ErrorsNew ''Segment index of key is negative - unimplemented''), m)) \<and>
   (uint (num_segments m) \<le> sint (SegmentIndex addr) \<longrightarrow>
      Insert m addr v = (Some (ErrorsNew ''Error: Inserting into a non allocated segment''), m))"
proof (intro conjI impI allI)
  assume ok: "Insert m addr v1 = (None, m1)"
  show d: "data m1 addr = Some v1" using ok by (rule Insert_success_data)
  from Insert_success_validate[OF ok]
  have va: "validateAddress (m\<lparr>data := (data m)(addr \<mapsto> v1)\<rparr>) addr = (None, m1)"
    and seg: "0 \<le> sint (SegmentIndex addr)" "sint (SegmentIndex addr) < sint (num_segments m)"
    by simp_all
  have ns: "num_segments m1 = num_segments m"
    using validateAddress_num_segments[of "m\<lparr>data := (data m)(addr \<mapsto> v1)\<rparr>" addr] va by simp
  have upd: "m1\<lparr>data := (data m1)(addr \<mapsto> v1)\<rparr> = m1"
    using d by (simp add: map_upd_triv)
  show "Insert m1 addr v1 = (None, m1)"
    using seg ns d upd validateAddress_idem[OF va] by (simp add: Insert_def)
  fix v2 assume "v2 \<noteq> v1"
  then show "Insert m1 addr v2 =
           (Some (ErrorsNew ''Memory is write-once, cannot overwrite memory value''), m1)"
    using seg ns d by (auto simp add: Insert_def)
next
  assume "sint (SegmentIndex addr) < 0"
  then show "Insert m addr v =
        (Some (ErrorsNew ''Segment index of key is negative - unimplemented''), m)"
    by (simp add: Insert_def)
next
  assume h: "uint (num_segments m) \<le> sint (SegmentIndex addr)"
  have "sint (num_segments m) \<le> uint (num_segments m)"
    by (rule sint_le_uint) 
  moreover have "\<not> sint (SegmentIndex addr) < 0"
    using h uint_ge_0[of "num_segments m"] by linarith
  ultimately show "Insert m addr v = (Some (ErrorsNew ''Error: Inserting into a non allocated segment''), m)"
    using h by (simp add: Insert_def)
qed

theorem Insert_write_once_witness:
  "Insert (NewMemory\<lparr>num_segments := 2\<rparr>) \<lparr>SegmentIndex = 0, Offset = 0\<rparr> (NewMaybeRelocatableFelt 5) =
     (None, NewMemory\<lparr>data := [\<lparr>SegmentIndex = 0, Offset = 0\<rparr> \<mapsto> NewMaybeRelocatableFelt 5],
                      num_segments := 2\<rparr>) \<and>
   Insert (NewMemory\<lparr>data := [\<lparr>SegmentIndex = 0, Offset = 0\<rparr> \<mapsto> NewMaybeRelocatableFelt 5],
                     num_segments := 2\<rparr>)
      \<lparr>SegmentIndex = 0, Offset = 0\<rparr> (NewMaybeRelocatableFelt 5) =
     (None, NewMemory\<lparr>data := [\<lparr>SegmentIndex = 0, Offset = 0\<rparr> \<mapsto> NewMaybeRelocatableFelt 5],
                      num_segments := 2\<rparr>) \<and>
   Insert (NewMemory\<lparr>data := [\<lparr>SegmentIndex = 0, Offset = 0\<rparr> \<mapsto> NewMaybeRelocatableFelt 5],
                     num_segments := 2\<rparr>)
      \<lparr>SegmentIndex = 0, Offset = 0\<rparr> (NewMaybeRelocatableFelt 6) =
     (Some (ErrorsNew ''Memory is write-once, cannot overwrite memory value''),
      NewMemory\<lparr>data := [\<lparr>SegmentIndex = 0, Offset = 0\<rparr> \<mapsto> NewMaybeRelocatableFelt 5],
                num_segments := 2\<rparr>) \<and>
   Insert (NewMemory\<lparr>num_segments := 2\<rparr>) \<lparr>SegmentIndex = - 1, Offset = 0\<rparr> (NewMaybeRelocatableFelt 5) =
     (Some (ErrorsNew ''Segment index of key is negative - unimplemented''),
      NewMemory\<lparr>num_segments := 2\<rparr>) \<and>
   Insert (NewMemory\<lparr>num_segments := 2\<rparr>) \<lparr>SegmentIndex = 2, Offset = 0\<rparr> (NewMaybeRelocatableFelt 5) =
     (Some (ErrorsNew ''Error: Inserting into a non allocated segment''),
      NewMemory\<lparr>num_segments := 2\<rparr>)"
proof -
  let ?m = "NewMemory\<lparr>num_segments := 2\<rparr>"
  let ?a = "\<lparr>SegmentIndex = 0, Offset = 0\<rparr>"
  let ?m1 = "NewMemory\<lparr>data := [?a \<mapsto> NewMaybeRelocatableFelt 5], num_segments := 2\<rparr>"
  have first: "Insert ?m ?a (NewMaybeRelocatableFelt 5) = (None, ?m1)"
    by (simp add: Insert_def validateAddress_def NewMemory_def)
  have neg: "sint (SegmentIndex \<lparr>SegmentIndex = - 1 :: 64 word, Offset = 0 :: 64 word\<rparr>) < 0"
    by simp
  have big: "uint (num_segments ?m) \<le> sint (SegmentIndex \<lparr>SegmentIndex = 2 :: 64 word, Offset = 0 :: 64 word\<rparr>)"
    by simp
  show ?thesis
    using first
      Insert_write_once[of ?m ?a "NewMaybeRelocatableFelt 5" ?m1 "NewMaybeRelocatableFelt 5"]
      Insert_write_once[of ?m "\<lparr>SegmentIndex = - 1, Offset = 0\<rparr>" "NewMaybeRelocatableFelt 5" ?m1
         "NewMaybeRelocatableFelt 5"]
      Insert_write_once[of ?m "\<lparr>SegmentIndex = 2, Offset = 0\<rparr>" "NewMaybeRelocatableFelt 5" ?m1
         "NewMaybeRelocatableFelt 5"]
      neg big
    by simp
qed

text \<open>
  C10. \<open>Get\<close> returns the negative-segment error for every address with a negative
  segment index, whatever the memory holds; for every other address it returns the
  stored value when there is one and the not-found error otherwise; and the memory
  (cells, rules and validated addresses) is the same afterwards.
\<close>

theorem Get_result:
  "(sint (SegmentIndex addr) < 0 \<longrightarrow>
      fst (Get m addr) = Inl (ErrorsNew ''Segment index of key is negative - unimplemented'')) \<and>
   (0 \<le> sint (SegmentIndex addr) \<longrightarrow>
      fst (Get m addr) =
        (case data m addr of
           Some v \<Rightarrow> Inr v
         | None \<Rightarrow> Inl (ErrorsNew ''Memory Get: Value not found''))) \<and>
   snd (Get m addr) = m"
  by (simp add: Get_def split: option.splits)

theorem Get_result_witness:
  "fst (Get (NewMemory\<lparr>data := [\<lparr>SegmentIndex = 0, Offset = 0\<rparr> \<mapsto> NewMaybeRelocatableFelt 5],
                      num_segments := 2\<rparr>) \<lparr>SegmentIndex = - 1, Offset = 0\<rparr>) =
     Inl (ErrorsNew ''Segment index of key is negative - unimplemented'') \<and>
   fst (Get (NewMemory\<lparr>data := [\<lparr>SegmentIndex = 0, Offset = 0\<rparr> \<mapsto> NewMaybeRelocatableFelt 5],
                      num_segments := 2\<rparr>) \<lparr>SegmentIndex = 0, Offset = 0\<rparr>) =
     Inr (NewMaybeRelocatableFelt 5) \<and>
   fst (Get (NewMemory\<lparr>data := [\<lparr>SegmentIndex = 0, Offset = 0\<rparr> \<mapsto> NewMaybeRelocatableFelt 5],
                      num_segments := 2\<rparr>) \<lparr>SegmentIndex = 0, Offset = 1\<rparr>) =
     Inl (ErrorsNew ''Memory Get: Value not found'') \<and>
   snd (Get (NewMemory\<lparr>data := [\<lparr>SegmentIndex = 0, Offset = 0\<rparr> \<mapsto> NewMaybeRelocatableFelt 5],
                      num_segments := 2\<rparr>) \<lparr>SegmentIndex = 0, Offset = 0\<rparr>) =
     NewMemory\<lparr>data := [\<lparr>SegmentIndex = 0, Offset = 0\<rparr> \<mapsto> NewMaybeRelocatableFelt 5],
               num_segments := 2\<rparr>"
proof -
  let ?m1 = "NewMemory\<lparr>data := [\<lparr>SegmentIndex = 0, Offset = 0\<rparr> \<mapsto> NewMaybeRelocatableFelt 5],
                       num_segments := 2\<rparr>"
  show ?thesis
    using Get_result[of "\<lparr>SegmentIndex = - 1, Offset = 0\<rparr>" ?m1]
      Get_result[of "\<lparr>SegmentIndex = 0, Offset = 0\<rparr>" ?m1]
      Get_result[of "\<lparr>SegmentIndex = 0, Offset = 1\<rparr>" ?m1]
    by (simp add: NewMemory_def)
qed

subsection \<open>Steps\<close>

text \<open>
  C2. In a step that succeeds, the entry appended to the trace, at the index that is the
  length of the trace before the step, holds \<open>pc\<close>, \<open>ap\<close> and \<open>fp\<close> as they were before
  \<open>UpdateRegisters\<close> ran: \<open>ComputeOperands\<close> changes neither the registers nor the trace,
  the entry is appended after it, and the registers of the result are those that
  \<open>UpdateRegisters\<close> computes afterwards. Every insert of the step is made by
  \<open>ComputeOperands\<close>, before the entry is appended: the memory after the step is the
  memory after \<open>ComputeOperands\<close>.
\<close>

theorem trace_entry_before_update:
  "FetchAndDecode D v = Inr i \<Longrightarrow> Step D v = (None, v') \<Longrightarrow>
     \<exists>ops v1 v3.
       ComputeOperands v i = (Inr ops, v1) \<and>
       RunContext v1 = RunContext v \<and> Trace v1 = Trace v \<and>
       UpdateRegisters
         (v1\<lparr>Trace := Trace v @ [TraceEntry (Pc (RunContext v)) (Ap (RunContext v))
                                  (Fp (RunContext v))]\<rparr>) i ops = (None, v3) \<and>
       RunContext v' = RunContext v3 \<and>
       Trace v' = Trace v @ [TraceEntry (Pc (RunContext v)) (Ap (RunContext v))
                               (Fp (RunContext v))] \<and>
       Trace v' ! length (Trace v) =
         TraceEntry (Pc (RunContext v)) (Ap (RunContext v)) (Fp (RunContext v)) \<and>
       Memory (Segments v') = Memory (Segments v1)"
proof -
  assume fd: "FetchAndDecode D v = Inr i" and st: "Step D v = (None, v')"
  then have "RunInstruction v i = (None, v')" by (simp add: Step_def)
  from RunInstruction_success[OF this] obtain ops v1 v3 where
    co: "ComputeOperands v i = (Inr ops, v1)" and
    ur: "UpdateRegisters
         (v1\<lparr>Trace := Trace v1 @ [TraceEntry (Pc (RunContext v1)) (Ap (RunContext v1))
                                   (Fp (RunContext v1))]\<rparr>) i ops = (None, v3)" and
    v': "v' = v3\<lparr>CurrentStep := CurrentStep v3 + 1\<rparr>"
    by blast
  from ComputeOperands_fields[OF co] have rc: "RunContext v1 = RunContext v" and tr: "Trace v1 = Trace v"
    by simp_all
  from UpdateRegisters_frame[OF ur] have
    seg: "Segments v3 = Segments v1" and
    tr3: "Trace v3 = Trace v @ [TraceEntry (Pc (RunContext v)) (Ap (RunContext v)) (Fp (RunContext v))]"
    by (simp_all add: rc tr)
  show ?thesis
    using co rc tr ur v' seg tr3 by (intro exI[of _ ops] exI[of _ v1] exI[of _ v3]) simp
qed

theorem trace_entry_before_update_witness:
  "FetchAndDecode (decode_only assert_eq_add_instruction) assert_eq_add_machine =
     Inr assert_eq_add_instruction \<and>
   fst (Step (decode_only assert_eq_add_instruction) assert_eq_add_machine) = None \<and>
   Trace assert_eq_add_machine = [] \<and>
   Trace (snd (Step (decode_only assert_eq_add_instruction) assert_eq_add_machine)) ! 0 =
     TraceEntry \<lparr>SegmentIndex = 0, Offset = 0\<rparr> \<lparr>SegmentIndex = 1, Offset = 5\<rparr>
       \<lparr>SegmentIndex = 1, Offset = 5\<rparr> \<and>
   Pc (RunContext (snd (Step (decode_only assert_eq_add_instruction) assert_eq_add_machine))) =
     \<lparr>SegmentIndex = 0, Offset = 1\<rparr>"
proof -
  have tr: "Trace assert_eq_add_machine = []"
    and rc: "RunContext assert_eq_add_machine =
      \<lparr>Pc = \<lparr>SegmentIndex = 0, Offset = 0\<rparr>, Ap = \<lparr>SegmentIndex = 1, Offset = 5\<rparr>,
       Fp = \<lparr>SegmentIndex = 1, Offset = 5\<rparr>\<rparr>"
    by (simp_all add: assert_eq_add_machine_def machine_defs)
  from trace_entry_before_update[OF assert_eq_add_fetch assert_eq_add_step]
  show ?thesis
    using assert_eq_add_fetch tr rc by (auto simp: assert_eq_add_step machine_with_def)
qed

text \<open>
  C3. For an instruction with opcode \<open>AssertEq\<close>, \<open>OpcodeAssertions\<close> fails with
  \<open>UnconstrainedResAssertEq\<close> when \<open>res\<close> is nil, with \<open>DiffAssertValues\<close> when \<open>res\<close> is
  defined and differs from \<open>dst\<close>, and succeeds when \<open>res\<close> is \<open>dst\<close>. So in every step
  that succeeds on such an instruction the operands computed have \<open>res\<close> defined and
  equal to \<open>dst\<close>.
\<close>

theorem OpcodeAssertions_AssertEq:
  "Opcode instruction = AssertEq \<Longrightarrow>
     (Res operands = None \<longrightarrow>
        OpcodeAssertions vm instruction operands =
          Some (VirtualMachineError ''UnconstrainedResAssertEq'')) \<and>
     (\<forall>r. Res operands = Some r \<and> r \<noteq> Dst operands \<longrightarrow>
        OpcodeAssertions vm instruction operands = Some (VirtualMachineError ''DiffAssertValues'')) \<and>
     (Res operands = Some (Dst operands) \<longrightarrow> OpcodeAssertions vm instruction operands = None) \<and>
     (\<forall>D vm'. FetchAndDecode D vm = Inr instruction \<and> Step D vm = (None, vm') \<longrightarrow>
        (\<exists>ops vm1. ComputeOperands vm instruction = (Inr ops, vm1) \<and> Res ops = Some (Dst ops)))"
proof (intro conjI impI allI)
  assume op: "Opcode instruction = AssertEq"
  fix D vm'
  assume "FetchAndDecode D vm = Inr instruction \<and> Step D vm = (None, vm')"
  then have "RunInstruction vm instruction = (None, vm')"
    by (auto simp: Step_def)
  from RunInstruction_success[OF this] obtain ops v1 where
    co: "ComputeOperands vm instruction = (Inr ops, v1)" and oa: "OpcodeAssertions v1 instruction ops = None"
    by blast
  from oa op have "Res ops = Some (Dst ops)"
    by (auto simp: OpcodeAssertions_def MaybeRelocatable_IsEqual_def split: option.splits if_splits)
  with co show "\<exists>ops vm1. ComputeOperands vm instruction = (Inr ops, vm1) \<and> Res ops = Some (Dst ops)"
    by blast
qed (auto simp: OpcodeAssertions_def MaybeRelocatable_IsEqual_def)

theorem OpcodeAssertions_AssertEq_witness:
  "OpcodeAssertions assert_eq_add_machine assert_eq_add_instruction
     \<lparr>Dst = NewMaybeRelocatableFelt 5, Res = None,
      Op0 = NewMaybeRelocatableFelt 2, Op1 = NewMaybeRelocatableFelt 3\<rparr> =
     Some (VirtualMachineError ''UnconstrainedResAssertEq'') \<and>
   OpcodeAssertions assert_eq_add_machine assert_eq_add_instruction
     \<lparr>Dst = NewMaybeRelocatableFelt 5, Res = Some (NewMaybeRelocatableFelt 6),
      Op0 = NewMaybeRelocatableFelt 2, Op1 = NewMaybeRelocatableFelt 3\<rparr> =
     Some (VirtualMachineError ''DiffAssertValues'') \<and>
   OpcodeAssertions assert_eq_add_machine assert_eq_add_instruction
     \<lparr>Dst = NewMaybeRelocatableFelt 5, Res = Some (NewMaybeRelocatableFelt 5),
      Op0 = NewMaybeRelocatableFelt 2, Op1 = NewMaybeRelocatableFelt 3\<rparr> = None \<and>
   (\<exists>ops vm1. ComputeOperands assert_eq_add_machine assert_eq_add_instruction = (Inr ops, vm1) \<and>
      Res ops = Some (Dst ops))"
proof -
  have op: "Opcode assert_eq_add_instruction = AssertEq"
    by (simp add: assert_eq_add_instruction_def)
  show ?thesis
    using
      OpcodeAssertions_AssertEq[OF op, of
        "\<lparr>Dst = NewMaybeRelocatableFelt 5, Res = None,
          Op0 = NewMaybeRelocatableFelt 2, Op1 = NewMaybeRelocatableFelt 3\<rparr>" assert_eq_add_machine]
      OpcodeAssertions_AssertEq[OF op, of
        "\<lparr>Dst = NewMaybeRelocatableFelt 5, Res = Some (NewMaybeRelocatableFelt 6),
          Op0 = NewMaybeRelocatableFelt 2, Op1 = NewMaybeRelocatableFelt 3\<rparr>" assert_eq_add_machine]
      OpcodeAssertions_AssertEq[OF op, of
        "\<lparr>Dst = NewMaybeRelocatableFelt 5, Res = Some (NewMaybeRelocatableFelt 5),
          Op0 = NewMaybeRelocatableFelt 2, Op1 = NewMaybeRelocatableFelt 3\<rparr>" assert_eq_add_machine]
      assert_eq_add_fetch assert_eq_add_step
    by auto
qed

text \<open>
  C4, as stated, fails: \<open>OpcodeAssertions\<close> compares the values of \<open>dst\<close> and \<open>op0\<close>
  with \<open>fp\<close> and \<open>pc + size\<close>, wherever the instruction reads them. The call below reads
  them at \<open>[fp - 2]\<close> and \<open>[fp - 1]\<close>; the step succeeds and the cells \<open>[ap]\<close> and
  \<open>[ap + 1]\<close> stay empty.
\<close>

theorem call_writes_return_frame_counterexample:
  "FetchAndDecode (decode_only call_below_fp_instruction) call_machine =
     Inr call_below_fp_instruction \<and>
   Opcode call_below_fp_instruction = Call \<and>
   fst (Step (decode_only call_below_fp_instruction) call_machine) = None \<and>
   Ap (RunContext call_machine) = \<lparr>SegmentIndex = 1, Offset = 2\<rparr> \<and>
   cells_of (snd (Step (decode_only call_below_fp_instruction) call_machine))
     \<lparr>SegmentIndex = 1, Offset = 2\<rparr> = None \<and>
   cells_of (snd (Step (decode_only call_below_fp_instruction) call_machine))
     \<lparr>SegmentIndex = 1, Offset = 3\<rparr> = None"
proof -
  have "FetchAndDecode (decode_only call_below_fp_instruction) call_machine =
     Inr call_below_fp_instruction"
    by (simp add: FetchAndDecode_def call_machine_def machine_defs memory_defs value_defs)
  moreover have "Opcode call_below_fp_instruction = Call"
    by (simp add: call_below_fp_instruction_def call_instruction_def)
  ultimately show ?thesis
    by (simp add: call_below_fp_step) (simp add: call_machine_def machine_defs)
qed

text \<open>
  C4, amended. In a step that succeeds on a \<open>Call\<close> whose \<open>dst\<close> is \<open>[ap]\<close> and whose
  \<open>op0\<close> is \<open>[ap + 1]\<close>, with \<open>ap\<close> in an allocated segment that has no builtin runner,
  and with \<open>fp\<close> other than \<open>(0, 0)\<close> or no felt stored at \<open>ap\<close> before the step, the
  memory afterwards holds \<open>fp\<close> at \<open>ap\<close> and \<open>pc + size\<close> at \<open>ap + 1\<close> (both sums
  without overflow), the registers being those at the start of the step.
\<close>

theorem call_writes_return_frame:
  assumes fetch: "FetchAndDecode D v = Inr i"
    and step: "Step D v = (None, v')"
    and call: "Opcode i = Call"
    and dst: "DstReg i = AP" "Off0 i = 0"
    and op0: "Op0Reg i = AP" "Off1 i = 1"
    and seg: "0 \<le> sint (SegmentIndex (Ap (RunContext v)))"
      "sint (SegmentIndex (Ap (RunContext v))) < sint (num_segments (Memory (Segments v)))"
    and nob: "\<forall>b\<in>set (BuiltinRunners v).
                SegmentIndex (Base b) \<noteq> SegmentIndex (Ap (RunContext v))"
    and fp: "Fp (RunContext v) \<noteq> \<lparr>SegmentIndex = 0, Offset = 0\<rparr> \<or>
             (\<forall>f. cells_of v (Ap (RunContext v)) \<noteq> Some (NewMaybeRelocatableFelt f))"
  shows "cells_of v' (Ap (RunContext v)) =
           Some (NewMaybeRelocatableRelocatable (Fp (RunContext v))) \<and>
         (\<exists>ap1 ret. AddUint (Ap (RunContext v)) 1 = Inr ap1 \<and>
            AddUint (Pc (RunContext v)) (Size i) = Inr ret \<and>
            cells_of v' ap1 = Some (NewMaybeRelocatableRelocatable ret))"
proof -
  let ?ap = "Ap (RunContext v)"
  from fetch step have "RunInstruction v i = (None, v')" by (simp add: Step_def)
  from RunInstruction_success[OF this] obtain ops v1 v3 where
    co: "ComputeOperands v i = (Inr ops, v1)" and oa: "OpcodeAssertions v1 i ops = None" and
    ur: "UpdateRegisters
         (v1\<lparr>Trace := Trace v1 @ [TraceEntry (Pc (RunContext v1)) (Ap (RunContext v1))
                                   (Fp (RunContext v1))]\<rparr>) i ops = (None, v3)" and
    v': "v' = v3\<lparr>CurrentStep := CurrentStep v3 + 1\<rparr>"
    by blast
  from UpdateRegisters_frame[OF ur] v' have mem: "cells_of v' = cells_of v1" by simp
  from ComputeOperands_fields[OF co] have rc1: "RunContext v1 = RunContext v" by simp
  from OpcodeAssertions_Call[OF call oa] rc1 obtain ret where
    ret: "AddUint (Pc (RunContext v)) (Size i) = Inr ret" and
    op0v: "Op0 ops = NewMaybeRelocatableRelocatable ret" and
    dstv: "fst (GetRelocatable (Dst ops)) = Fp (RunContext v)"
    by auto
  have da: "ComputeDstAddr (RunContext v) i = Inr ?ap"
    using dst by (simp add: ComputeDstAddr_def AddOffset_zero)
  from ComputeOperands_success[OF co] da obtain op0_addr op1_addr vm1 o0 res vm2 o1 res' where
    a0: "ComputeOp0Addr (RunContext v) i = Inr op0_addr" and
    s0: "(case GetOrNil v op0_addr of
            Some x \<Rightarrow> (Inr (x, None), v)
          | None \<Rightarrow> ComputeOp0Deductions v op0_addr i (GetOrNil v ?ap) (GetOrNil v op1_addr)) =
         (Inr (o0, res), vm1)" and
    s1: "(case GetOrNil v op1_addr of
            Some x \<Rightarrow> (Inr x, vm1)
          | None \<Rightarrow> ComputeOp1Deductions vm1 op1_addr i (GetOrNil v ?ap) (GetOrNil v op0_addr) res) =
         (Inr o1, vm2)" and
    ops: "ops = \<lparr>Dst = Dst ops, Res = res', Op0 = o0, Op1 = o1\<rparr>" and
    s2: "(case GetOrNil v ?ap of
            Some d \<Rightarrow> Dst ops = d \<and> v1 = vm2
          | None \<Rightarrow> DeduceDst vm2 i res' = Some (Dst ops) \<and> v1 = InsertDiscard vm2 ?ap (Dst ops))"
    by auto
  have op0o: "Op0 ops = o0" by (subst ops) simp
  from a0 op0 have ao: "AddOffset ?ap 1 = Inr op0_addr" by (simp add: ComputeOp0Addr_def)
  note ap1 = AddOffset_one[OF ao]
  have seg1: "0 \<le> sint (SegmentIndex op0_addr)"
    "sint (SegmentIndex op0_addr) < sint (num_segments (Memory (Segments v)))"
    using seg ap1(3) by simp_all
  have nob1: "\<forall>b\<in>set (BuiltinRunners v). SegmentIndex (Base b) \<noteq> SegmentIndex op0_addr"
    using nob ap1(3) by simp
  note st0 = call_op0_stage[OF call nob1 seg1 s0]
  have br1: "BuiltinRunners vm1 = BuiltinRunners v"
    using outside_memory_fields[OF st0(3)] by simp
  have nob2: "\<forall>b\<in>set (BuiltinRunners vm1). SegmentIndex (Base b) \<noteq> SegmentIndex ?ap"
    using nob br1 by simp
  note st1 = call_op1_stage[OF call nob2 s1]
  have rc2: "RunContext vm2 = RunContext v"
    using outside_memory_fields[OF st1(2)] outside_memory_fields[OF st0(3)] by simp
  have c2_ap: "cells_of vm2 ?ap = cells_of v ?ap"
    using st1(1) st0(2) ap1(2) by auto
  have c2_ap1: "cells_of vm2 op0_addr = Some o0"
    using st1(1) st0(1) ap1(3) by auto
  have ns2: "num_segments (Memory (Segments vm2)) = num_segments (Memory (Segments v))"
    using st1(3) st0(4) by simp
  have g: "GetOrNil v ?ap = cells_of v ?ap" using seg(1) by (rule GetOrNil_allocated)
  have fin: "cells_of v1 ?ap = Some (NewMaybeRelocatableRelocatable (Fp (RunContext v))) \<and>
      cells_of v1 op0_addr = Some o0"
  proof (cases "cells_of v ?ap")
    case (Some d)
    with s2 g have dd: "Dst ops = d" and v1: "v1 = vm2"
      by simp_all
    from dstv dd have "fst (GetRelocatable d) = Fp (RunContext v)" by simp
    moreover have "Fp (RunContext v) \<noteq> \<lparr>SegmentIndex = 0, Offset = 0\<rparr> \<or>
        (\<forall>f. d \<noteq> NewMaybeRelocatableFelt f)"
      using fp Some by auto
    ultimately have "d = NewMaybeRelocatableRelocatable (Fp (RunContext v))"
      by (rule GetRelocatable_eq)
    with Some c2_ap c2_ap1 v1 show ?thesis by simp
  next
    case None
    with s2 g have dd: "DeduceDst vm2 i res' = Some (Dst ops)" and
      v1: "v1 = InsertDiscard vm2 ?ap (Dst ops)"
      by simp_all
    from dd call rc2 have d: "Dst ops = NewMaybeRelocatableRelocatable (Fp (RunContext v))"
      by (simp add: DeduceDst_def)
    have "cells_of v1 ?ap = Some (Dst ops)"
      using v1 None c2_ap ns2 seg by (simp add: InsertDiscard_empty)
    moreover have "cells_of v1 op0_addr = Some o0"
      using v1 c2_ap1 ap1(2) by (simp add: InsertDiscard_other)
    ultimately show ?thesis using d by simp
  qed
  show ?thesis
    using fin mem op0v op0o ret AddOffset_one_AddUint[OF ao] by auto
qed

theorem call_writes_return_frame_witness:
  "FetchAndDecode (decode_only call_instruction) call_machine = Inr call_instruction \<and>
   fst (Step (decode_only call_instruction) call_machine) = None \<and>
   cells_of (snd (Step (decode_only call_instruction) call_machine))
     \<lparr>SegmentIndex = 1, Offset = 2\<rparr> =
     Some (NewMaybeRelocatableRelocatable \<lparr>SegmentIndex = 1, Offset = 2\<rparr>) \<and>
   cells_of (snd (Step (decode_only call_instruction) call_machine))
     \<lparr>SegmentIndex = 1, Offset = 3\<rparr> =
     Some (NewMaybeRelocatableRelocatable \<lparr>SegmentIndex = 0, Offset = 2\<rparr>)"
proof -
  have fetch: "FetchAndDecode (decode_only call_instruction) call_machine = Inr call_instruction"
    by (simp add: FetchAndDecode_def call_machine_def machine_defs memory_defs value_defs)
  have i: "Opcode call_instruction = Call" "DstReg call_instruction = AP"
    "Off0 call_instruction = 0" "Op0Reg call_instruction = AP" "Off1 call_instruction = 1"
    "Size call_instruction = 2"
    by (simp_all add: call_instruction_def Size_def)
  have m: "0 \<le> sint (SegmentIndex (Ap (RunContext call_machine)))"
    "sint (SegmentIndex (Ap (RunContext call_machine)))
       < sint (num_segments (Memory (Segments call_machine)))"
    "\<forall>b\<in>set (BuiltinRunners call_machine).
       SegmentIndex (Base b) \<noteq> SegmentIndex (Ap (RunContext call_machine))"
    "Fp (RunContext call_machine) \<noteq> \<lparr>SegmentIndex = 0, Offset = 0\<rparr> \<or>
       (\<forall>f. cells_of call_machine (Ap (RunContext call_machine)) \<noteq>
            Some (NewMaybeRelocatableFelt f))"
    by (simp_all add: call_machine_def machine_defs)
  have rc: "RunContext call_machine =
      \<lparr>Pc = \<lparr>SegmentIndex = 0, Offset = 0\<rparr>, Ap = \<lparr>SegmentIndex = 1, Offset = 2\<rparr>,
       Fp = \<lparr>SegmentIndex = 1, Offset = 2\<rparr>\<rparr>"
    by (simp add: call_machine_def machine_defs)
  from call_writes_return_frame[OF fetch call_step i(1-5) m]
  show ?thesis
    using fetch by (auto simp: call_step rc i(6) AddUint_def)
qed




subsection \<open>Register updates\<close>

text \<open>
  C5. With \<open>FpUpdateAPPlus2\<close>, \<open>UpdateFp\<close> assigns \<open>ap.Offset + 2\<close> to the offset of
  \<open>fp\<close> and leaves its segment index: from \<open>ap = (1, 5)\<close> and \<open>fp = (2, 3)\<close> the new
  \<open>fp\<close> is \<open>(2, 7)\<close>, not \<open>(1, 7)\<close>.
\<close>

theorem UpdateFp_APPlus2_keeps_segment:
  "UpdateFp
     (vm\<lparr>RunContext := \<lparr>Pc = pc, Ap = \<lparr>SegmentIndex = 1, Offset = 5\<rparr>,
                         Fp = \<lparr>SegmentIndex = 2, Offset = 3\<rparr>\<rparr>\<rparr>)
     (instruction\<lparr>FpUpdate := FpUpdateAPPlus2\<rparr>) operands =
   (None, vm\<lparr>RunContext := \<lparr>Pc = pc, Ap = \<lparr>SegmentIndex = 1, Offset = 5\<rparr>,
                               Fp = \<lparr>SegmentIndex = 2, Offset = 7\<rparr>\<rparr>\<rparr>)"
  by (simp add: UpdateFp_def)

subsection \<open>Deductions\<close>

text \<open>
  C7, as stated, fails: with \<open>ResAdd\<close> and both \<open>dst\<close> and \<open>op0\<close> known, a subtraction
  that is not defined (a felt minus a relocatable) makes \<open>DeduceOp1\<close> return the error
  of the subtraction.
\<close>

theorem DeduceOp1_cases_counterexample:
  "Opcode assert_eq_add_instruction = AssertEq \<and> ResLogic assert_eq_add_instruction = ResAdd \<and>
   DeduceOp1 assert_eq_add_instruction (Some (NewMaybeRelocatableFelt 1))
     (Some (NewMaybeRelocatableRelocatable \<lparr>SegmentIndex = 0, Offset = 0\<rparr>)) =
     Inl (ErrorsNew ''RelocatableSub'')"
  by (simp add: assert_eq_add_instruction_def DeduceOp1_def MaybeRelocatable_Sub_def)

text \<open>
  C7, amended. For an instruction with opcode \<open>AssertEq\<close>, \<open>DeduceOp1\<close> returns
  \<open>op1 = dst\<close> and \<open>res = dst\<close> for \<open>ResOp1\<close>; for \<open>ResAdd\<close> with \<open>dst\<close> and \<open>op0\<close>
  known it returns \<open>op1 = dst - op0\<close> and \<open>res = dst\<close> when the subtraction is defined
  and the error of the subtraction when it is not, and nil when one of them is
  missing; for \<open>ResMul\<close> with \<open>dst\<close> and \<open>op0\<close> known it returns \<open>op1 = dst / op0\<close> and
  \<open>res = dst\<close> when both are felts and \<open>op0\<close> is not zero, and nil otherwise; for
  \<open>ResUnconstrained\<close>, and for any other opcode, it returns nil.
\<close>

theorem DeduceOp1_cases:
  "(Opcode i = AssertEq \<and> ResLogic i = ResOp1 \<longrightarrow> DeduceOp1 i dst op0 = Inr (dst, dst)) \<and>
   (Opcode i = AssertEq \<and> ResLogic i = ResAdd \<longrightarrow>
      (\<forall>d o0. dst = Some d \<and> op0 = Some o0 \<longrightarrow>
         DeduceOp1 i dst op0 =
           (case MaybeRelocatable_Sub d o0 of
              Inl err \<Rightarrow> Inl err
            | Inr x \<Rightarrow> Inr (Some x, Some d))) \<and>
      (dst = None \<or> op0 = None \<longrightarrow> DeduceOp1 i dst op0 = Inr (None, None))) \<and>
   (Opcode i = AssertEq \<and> ResLogic i = ResMul \<longrightarrow>
      (\<forall>d o0. dst = Some (NewMaybeRelocatableFelt d) \<and> op0 = Some (NewMaybeRelocatableFelt o0) \<and>
          o0 \<noteq> FeltZero \<longrightarrow>
         DeduceOp1 i dst op0 =
           Inr (Some (NewMaybeRelocatableFelt (Felt_Div d o0)), Some (NewMaybeRelocatableFelt d))) \<and>
      (\<forall>d o0. dst = Some d \<and> op0 = Some o0 \<and>
          \<not> (\<exists>x y. d = NewMaybeRelocatableFelt x \<and> o0 = NewMaybeRelocatableFelt y \<and> y \<noteq> FeltZero) \<longrightarrow>
         DeduceOp1 i dst op0 = Inr (None, None))) \<and>
   (Opcode i = AssertEq \<and> ResLogic i = ResUnconstrained \<longrightarrow> DeduceOp1 i dst op0 = Inr (None, None)) \<and>
   (Opcode i \<noteq> AssertEq \<longrightarrow> DeduceOp1 i dst op0 = Inr (None, None))"
  by (auto simp: DeduceOp1_def GetFelt_def Felt_IsZero_def
           split: option.splits sum.splits maybe_relocatable.splits)

theorem DeduceOp1_cases_witness:
  "DeduceOp1 assert_eq_add_instruction (Some (NewMaybeRelocatableFelt 5))
     (Some (NewMaybeRelocatableFelt 2)) =
     Inr (Some (NewMaybeRelocatableFelt 3), Some (NewMaybeRelocatableFelt 5)) \<and>
   DeduceOp1 assert_eq_add_instruction None (Some (NewMaybeRelocatableFelt 2)) = Inr (None, None) \<and>
   DeduceOp1 (assert_eq_add_instruction\<lparr>ResLogic := ResOp1\<rparr>) (Some (NewMaybeRelocatableFelt 5))
     None = Inr (Some (NewMaybeRelocatableFelt 5), Some (NewMaybeRelocatableFelt 5)) \<and>
   DeduceOp1 (assert_eq_add_instruction\<lparr>ResLogic := ResMul\<rparr>) (Some (NewMaybeRelocatableFelt 6))
     (Some (NewMaybeRelocatableFelt 3)) =
     Inr (Some (NewMaybeRelocatableFelt (Felt_Div 6 3)), Some (NewMaybeRelocatableFelt 6)) \<and>
   DeduceOp1 (assert_eq_add_instruction\<lparr>ResLogic := ResMul\<rparr>) (Some (NewMaybeRelocatableFelt 6))
     (Some (NewMaybeRelocatableFelt 0)) = Inr (None, None) \<and>
   DeduceOp1 (assert_eq_add_instruction\<lparr>Opcode := Call\<rparr>) (Some (NewMaybeRelocatableFelt 6))
     (Some (NewMaybeRelocatableFelt 3)) = Inr (None, None)"
  using
    DeduceOp1_cases[of assert_eq_add_instruction "Some (NewMaybeRelocatableFelt 5)"
      "Some (NewMaybeRelocatableFelt 2)"]
    DeduceOp1_cases[of assert_eq_add_instruction None "Some (NewMaybeRelocatableFelt 2)"]
    DeduceOp1_cases[of "assert_eq_add_instruction\<lparr>ResLogic := ResOp1\<rparr>"
      "Some (NewMaybeRelocatableFelt 5)" None]
    DeduceOp1_cases[of "assert_eq_add_instruction\<lparr>ResLogic := ResMul\<rparr>"
      "Some (NewMaybeRelocatableFelt 6)" "Some (NewMaybeRelocatableFelt 3)"]
    DeduceOp1_cases[of "assert_eq_add_instruction\<lparr>ResLogic := ResMul\<rparr>"
      "Some (NewMaybeRelocatableFelt 6)" "Some (NewMaybeRelocatableFelt 0)"]
    DeduceOp1_cases[of "assert_eq_add_instruction\<lparr>Opcode := Call\<rparr>"
      "Some (NewMaybeRelocatableFelt 6)" "Some (NewMaybeRelocatableFelt 3)"]
  by (simp add: assert_eq_add_instruction_def MaybeRelocatable_Sub_def Felt_Sub_def
        felt_modulus_def FeltZero_def)

text \<open>
  The case that the amended claim leaves out: with \<open>ResMul\<close> and a nil \<open>dst\<close> or
  \<open>op0\<close>, \<open>DeduceOp1\<close> dereferences the nil pointer. \<open>DeduceOp0\<close> tests both pointers
  first.
\<close>

lemma DeduceOp1_nil_dereference:
  "Opcode i = AssertEq \<Longrightarrow> ResLogic i = ResMul \<Longrightarrow> dst = None \<or> op0 = None \<Longrightarrow>
     DeduceOp1 i dst op0 = Inl NilPointerDereference"
  by (auto simp: DeduceOp1_def split: option.splits)

text \<open>
  C8. \<open>ComputeOp0Deductions\<close> and \<open>ComputeOp1Deductions\<close> do not read the error of
  their \<open>Insert\<close>. On the machine below \<open>op0\<close> and \<open>op1\<close> are both read from the empty cell
  \<open>(1, 1)\<close>; the builtin deduces 7 for \<open>op0\<close>, which is inserted; \<open>op1\<close> is deduced as
  \<open>dst = 9\<close>, and its \<open>Insert\<close> at the same cell returns the write-once error; yet
  \<open>ComputeOperands\<close> and the step succeed, with \<open>op1 = 9\<close> and 7 in the cell.
\<close>

theorem deduced_op1_conflict_is_dropped:
  "cells_of same_cell_machine \<lparr>SegmentIndex = 1, Offset = 1\<rparr> = None \<and>
   fst (ComputeOp0Deductions same_cell_machine \<lparr>SegmentIndex = 1, Offset = 1\<rparr>
          assert_eq_same_cell_instruction (Some (NewMaybeRelocatableFelt 9)) None) =
     Inr (NewMaybeRelocatableFelt 7, None) \<and>
   fst (Insert
          (Memory (Segments
             (snd (ComputeOp0Deductions same_cell_machine \<lparr>SegmentIndex = 1, Offset = 1\<rparr>
                     assert_eq_same_cell_instruction (Some (NewMaybeRelocatableFelt 9)) None))))
          \<lparr>SegmentIndex = 1, Offset = 1\<rparr> (NewMaybeRelocatableFelt 9)) =
     Some (ErrorsNew ''Memory is write-once, cannot overwrite memory value'') \<and>
   fst (ComputeOperands same_cell_machine assert_eq_same_cell_instruction) =
     Inr \<lparr>Dst = NewMaybeRelocatableFelt 9, Res = Some (NewMaybeRelocatableFelt 9),
          Op0 = NewMaybeRelocatableFelt 7, Op1 = NewMaybeRelocatableFelt 9\<rparr> \<and>
   fst (Step (decode_only assert_eq_same_cell_instruction) same_cell_machine) = None \<and>
   cells_of (snd (Step (decode_only assert_eq_same_cell_instruction) same_cell_machine))
     \<lparr>SegmentIndex = 1, Offset = 1\<rparr> = Some (NewMaybeRelocatableFelt 7)"
proof -
  have "cells_of same_cell_machine \<lparr>SegmentIndex = 1, Offset = 1\<rparr> = None"
    by (simp add: same_cell_machine_def machine_defs)
  moreover have "fst (Insert
          (Memory (Segments
             (InsertDiscard same_cell_machine \<lparr>SegmentIndex = 1, Offset = 1\<rparr>
                (NewMaybeRelocatableFelt 7))))
          \<lparr>SegmentIndex = 1, Offset = 1\<rparr> (NewMaybeRelocatableFelt 9)) =
     Some (ErrorsNew ''Memory is write-once, cannot overwrite memory value'')"
    by (simp add: same_cell_machine_def machine_defs memory_defs)
  ultimately show ?thesis
    by (simp add: same_cell_op0 same_cell_operands same_cell_step machine_with_def)
qed

subsection \<open>Relocation\<close>




end
